theory Spec2Isabelle
  imports Complex_Main "HOL-Library.Multiset"
begin

section \<open>Python values: exceptions and the ways a call can end\<close>

text \<open>
  The exceptions that the modelled code can raise. \<open>UsageError\<close> is click's rejection of
  a command name outside the declared choice; the others are Python's built-in exceptions.
\<close>

datatype error =
    UsageError string
  | ValueError string
  | TypeError
  | AssertionError
  | KeyError string
  | AttributeError
  | ZeroDivisionError
  | OSError string

text \<open>
  A call returns (\<open>Done\<close>), raises, or never returns (\<open>Blocked\<close>: a receive on a
  pipe nobody writes to). Objects are mutated in place, so every operation hands back the
  state it reached together with the way it ended.
\<close>

datatype outcome = Done | Raised error | Blocked

section \<open>The POSIX path and string functions of the Python library\<close>

definition path_join :: "string \<Rightarrow> string \<Rightarrow> string" where
  "path_join a b =
     (if b \<noteq> [] \<and> hd b = CHR ''/'' then b
      else if a = [] \<or> last a = CHR ''/'' then a @ b
      else a @ ''/'' @ b)"

definition path_split :: "string \<Rightarrow> string \<times> string" where
  "path_split p =
     (let head = rev (dropWhile (\<lambda>c. c \<noteq> CHR ''/'') (rev p));
          tail = rev (takeWhile (\<lambda>c. c \<noteq> CHR ''/'') (rev p))
      in (if head \<noteq> [] \<and> \<not> list_all (\<lambda>c. c = CHR ''/'') head
          then rev (dropWhile (\<lambda>c. c = CHR ''/'') (rev head))
          else head, tail))"

definition splitext :: "string \<Rightarrow> string \<times> string" where
  "splitext p =
     (let base = rev (takeWhile (\<lambda>c. c \<noteq> CHR ''/'') (rev p));
          dirpart = rev (dropWhile (\<lambda>c. c \<noteq> CHR ''/'') (rev p));
          ext_rev = takeWhile (\<lambda>c. c \<noteq> CHR ''.'') (rev base);
          pre = rev (drop (Suc (length ext_rev)) (rev base))
      in if CHR ''.'' \<in> set base \<and> \<not> list_all (\<lambda>c. c = CHR ''.'') pre
         then (dirpart @ pre, CHR ''.'' # rev ext_rev)
         else (p, []))"

fun str_split :: "char \<Rightarrow> string \<Rightarrow> string list" where
  "str_split sep [] = [[]]"
| "str_split sep (c # cs) =
     (if c = sep then [] # str_split sep cs
      else (case str_split sep cs of [] \<Rightarrow> [[c]] | w # ws \<Rightarrow> (c # w) # ws))"

fun str_join :: "string \<Rightarrow> string list \<Rightarrow> string" where
  "str_join sep [] = []"
| "str_join sep [w] = w"
| "str_join sep (w # ws) = w @ sep @ str_join sep ws"

definition rstrip_newline :: "string \<Rightarrow> string" where
  "rstrip_newline s = rev (dropWhile (\<lambda>c. c = CHR 0x0A) (rev s))"

text \<open>\<open>1 << b\<close> on Python integers: a negative shift count raises.\<close>

definition shift_left_one :: "int \<Rightarrow> error + int" where
  "shift_left_one b =
     (if b < 0 then Inl (ValueError ''negative shift count'') else Inr (2 ^ nat b))"

section \<open>The fingerprint index, the file system, the analyzer and the matcher\<close>

type_synonym hashes = "(nat \<times> nat) list"

text \<open>
  Modelled from the spec: the class \<open>hash_table.HashTable\<close> that \<open>audfprint.py\<close> imports is
  not among the sources. The spec describes the Fingerprint Index as a persistent map from
  landmark hash to (file, time offset) that supports store, merge, remove, enumerate,
  load and save, is created fresh from (hash-width, bucket depth, max-time-range), and
  carries a dirty flag set by any store, merge or remove and cleared only by save.
  The source reads the fields \<open>hashbits\<close>, \<open>depth\<close>, \<open>maxtimebits\<close>, \<open>params\<close>, \<open>names\<close>,
  \<open>counts\<close> and \<open>dirty\<close>. The stored records are kept as one block of (time, hash)
  pairs per stored file, in store order; what a full bucket does is not described and not
  modelled.
\<close>

record hash_table =
  hashbits :: int
  depth :: int
  maxtimebits :: int
  params :: "string \<rightharpoonup> int"
  blocks :: "(string \<times> hashes) list"
  dirty :: bool

datatype content = Index hash_table | Precomp "(nat \<times> nat) list" | Lines "string list"

text \<open>
  The file system as the code sees it: the directories that exist, the directories that
  \<open>os.makedirs\<close> cannot create, and the regular files with their contents.
\<close>

record fsys =
  dirs :: "string set"
  nomkdir :: "string set"
  files :: "string \<rightharpoonup> content"

text \<open>
  Modelled from the spec: the class \<open>audfprint_analyze.Analyzer\<close> is not among the sources.
  \<open>setup_analyzer\<close> assigns the configuration fields; the spec adds that the analyzer reports
  a per-call duration and a cumulative processed duration.
\<close>

record analyzer =
  density :: real
  maxpksperframe :: int
  maxpairsperpeak :: int
  f_sd :: real
  shifts :: int
  target_sr :: int
  n_fft :: int
  n_hop :: int
  fail_on_error :: bool
  soundfiledur :: real
  soundfiletotaldur :: real
  soundfilecount :: nat

record matcher =
  window :: int
  threshcount :: int
  max_returns :: int
  search_depth :: int
  sort_by_time :: bool
  exact_count :: bool
  illustrate :: bool
  illustrate_hpf :: bool
  find_time_range :: bool
  time_quantile :: real

text \<open>
  The lines written to the log. Lines that hold only text are strings; lines that format
  numbers or the wall-clock time keep the values they are built from.
\<close>

datatype message =
    Str string
  | Wrote string nat string real
  | Ingesting nat string
  | Added nat real
  | TableInfo nat nat nat
  | Reading string

text \<open>
  What the collaborators outside the sources compute, taken as parameters: the bit width of
  a maximum time value (\<open>hash_table._bitsfor\<close>), the signal analysis of one audio file under
  the configuration of the run (its duration, peaks and hashes, or nothing when the file
  cannot be read), the matcher's report for one query file, and the two extensions of
  precomputed files.
\<close>

record externals =
  bitsfor :: "int \<Rightarrow> int"
  audio :: "string \<Rightarrow> (real \<times> (nat \<times> nat) list \<times> hashes) option"
  match_report :: "matcher \<Rightarrow> analyzer option \<Rightarrow> hash_table option \<Rightarrow> string \<Rightarrow> nat option
                     \<Rightarrow> message list"
  PRECOMPEXT :: string
  PRECOMPPKEXT :: string

text \<open>
  Modelled from the spec: the operations of \<open>hash_table.HashTable\<close>. A fresh index is
  empty, has no parameters and a clear dirty flag; loading reads a stored index, with a clear
  dirty flag; store adds the records of one file, merge adds the records of another index,
  remove drops the records of one file, and each of the three sets the dirty flag; save
  writes the index to the named path and clears the flag, and fails when the directory of
  the path does not exist. \<open>names\<close> and \<open>counts\<close> list the stored files and the number
  of records of each.
\<close>

definition HashTable_new :: "externals \<Rightarrow> int \<Rightarrow> int \<Rightarrow> int \<Rightarrow> hash_table" where
  "HashTable_new ext hb dp maxtime =
     \<lparr>hashbits = hb, depth = dp, maxtimebits = bitsfor ext maxtime,
      params = Map.empty, blocks = [], dirty = False\<rparr>"

definition HashTable_load :: "string \<Rightarrow> fsys \<Rightarrow> error + hash_table" where
  "HashTable_load name fs =
     (case files fs name of
        Some (Index ht) \<Rightarrow> Inr (ht\<lparr>dirty := False\<rparr>)
      | _ \<Rightarrow> Inl (OSError name))"

definition ht_store :: "hash_table \<Rightarrow> string \<Rightarrow> hashes \<Rightarrow> hash_table" where
  "ht_store ht name hs = ht\<lparr>blocks := blocks ht @ [(name, hs)], dirty := True\<rparr>"

definition ht_merge :: "hash_table \<Rightarrow> hash_table \<Rightarrow> hash_table" where
  "ht_merge ht ht2 = ht\<lparr>blocks := blocks ht @ blocks ht2, dirty := True\<rparr>"

definition ht_remove :: "hash_table \<Rightarrow> string \<Rightarrow> hash_table" where
  "ht_remove ht name = ht\<lparr>blocks := filter (\<lambda>b. fst b \<noteq> name) (blocks ht), dirty := True\<rparr>"

definition names :: "hash_table \<Rightarrow> string list" where
  "names ht = map fst (blocks ht)"

definition counts :: "hash_table \<Rightarrow> nat list" where
  "counts ht = map (\<lambda>b. length (snd b)) (blocks ht)"

definition ht_save :: "hash_table \<Rightarrow> string \<Rightarrow> fsys \<Rightarrow> (error + hash_table) \<times> fsys" where
  "ht_save ht name fs =
     (let d = fst (path_split name)
      in if d \<noteq> [] \<and> d \<notin> dirs fs then (Inl (OSError name), fs)
         else (Inr (ht\<lparr>dirty := False\<rparr>),
               fs\<lparr>files := (files fs)(name \<mapsto> Index (ht\<lparr>dirty := False\<rparr>))\<rparr>))"

text \<open>What is counted on an index: the entries stored under one file name, and all entries.\<close>

definition file_entries :: "hash_table \<Rightarrow> string \<Rightarrow> nat" where
  "file_entries ht name = sum_list (map (\<lambda>b. length (snd b)) (filter (\<lambda>b. fst b = name) (blocks ht)))"

definition total_hashes :: "hash_table \<Rightarrow> nat" where
  "total_hashes ht = sum_list (counts ht)"

text \<open>
  Modelled from the spec: the analyzer's methods. An audio file that cannot be read raises
  when the fail-fast toggle is on; otherwise the error is swallowed and the file yields
  nothing. \<open>ingest\<close> is the combined analyze-and-store operation; it returns the duration
  and the number of hashes of the file.
\<close>

definition Analyzer_new :: analyzer where
  "Analyzer_new =
     \<lparr>density = 0, maxpksperframe = 0, maxpairsperpeak = 0, f_sd = 0, shifts = 0,
      target_sr = 0, n_fft = 0, n_hop = 0, fail_on_error = True,
      soundfiledur = 0, soundfiletotaldur = 0, soundfilecount = 0\<rparr>"

definition wavfile2hashes :: "externals \<Rightarrow> analyzer \<Rightarrow> string \<Rightarrow> (error + hashes) \<times> analyzer" where
  "wavfile2hashes ext an filename =
     (case audio ext filename of
        None \<Rightarrow>
          if fail_on_error an then (Inl (OSError filename), an)
          else (Inr [], an\<lparr>soundfiledur := 0\<rparr>)
      | Some (dur, pks, hs) \<Rightarrow>
          (Inr hs, an\<lparr>soundfiledur := dur,
                      soundfiletotaldur := soundfiletotaldur an + dur,
                      soundfilecount := Suc (soundfilecount an)\<rparr>))"

definition wavfile2peaks :: "externals \<Rightarrow> analyzer \<Rightarrow> string \<Rightarrow> (error + (nat \<times> nat) list) \<times> analyzer" where
  "wavfile2peaks ext an filename =
     (case audio ext filename of
        None \<Rightarrow>
          if fail_on_error an then (Inl (OSError filename), an)
          else (Inr [], an\<lparr>soundfiledur := 0\<rparr>)
      | Some (dur, pks, hs) \<Rightarrow>
          (Inr pks, an\<lparr>soundfiledur := dur,
                       soundfiletotaldur := soundfiletotaldur an + dur,
                       soundfilecount := Suc (soundfilecount an)\<rparr>))"

definition ingest ::
  "externals \<Rightarrow> analyzer \<Rightarrow> hash_table option \<Rightarrow> string
     \<Rightarrow> (error + real \<times> nat) \<times> analyzer \<times> hash_table option" where
  "ingest ext an hash_tab filename =
     (case wavfile2hashes ext an filename of
        (Inl e, an') \<Rightarrow> (Inl e, an', hash_tab)
      | (Inr hs, an') \<Rightarrow>
          (case hash_tab of
             None \<Rightarrow> (Inl AttributeError, an', None)
           | Some ht \<Rightarrow> (Inr (soundfiledur an', length hs), an', Some (ht_store ht filename hs))))"

text \<open>
  Modelled from the spec: the savers \<open>hashes_save\<close> and \<open>peaks_save\<close> of the analyzer
  module write the artifact; writing into a directory that does not exist is an I/O error.
\<close>

definition precomp_save :: "string \<Rightarrow> (nat \<times> nat) list \<Rightarrow> fsys \<Rightarrow> error + fsys" where
  "precomp_save opfname output fs =
     (let d = fst (path_split opfname)
      in if d \<noteq> [] \<and> d \<notin> dirs fs then Inl (OSError opfname)
         else Inr (fs\<lparr>files := (files fs)(opfname \<mapsto> Precomp output)\<rparr>))"

text \<open>\<open>os.path.exists\<close>, \<open>os.path.isfile\<close> and \<open>os.makedirs\<close> on this file system
  (intermediate directories are not tracked).\<close>

definition path_exists :: "fsys \<Rightarrow> string \<Rightarrow> bool" where
  "path_exists fs p = (p \<in> dirs fs \<or> p \<in> dom (files fs))"

definition isfile :: "fsys \<Rightarrow> string \<Rightarrow> bool" where
  "isfile fs p = (p \<in> dom (files fs))"

definition makedirs :: "string \<Rightarrow> fsys \<Rightarrow> error + fsys" where
  "makedirs d fs =
     (if d \<in> nomkdir fs \<or> path_exists fs d then Inl (OSError d)
      else Inr (fs\<lparr>dirs := insert d (dirs fs)\<rparr>))"

section \<open>The functions of audfprint.py\<close>

subsection \<open>filename_list_iterator\<close>

text \<open>
  A generator is the list of values it yields and the exception, if any, that ends it:
  a list file that cannot be opened raises when the iteration reaches it.
\<close>

type_synonym 'a generator = "'a list \<times> error option"

fun list_files_iterator :: "fsys \<Rightarrow> string \<Rightarrow> string \<Rightarrow> string list \<Rightarrow> string generator" where
  "list_files_iterator fs wavdir wavext [] = ([], None)"
| "list_files_iterator fs wavdir wavext (listfilename # rest) =
     (case files fs listfilename of
        Some (Lines ls) \<Rightarrow>
          (case list_files_iterator fs wavdir wavext rest of
             (ys, err) \<Rightarrow>
               (map (\<lambda>filename. path_join wavdir (rstrip_newline filename @ wavext)) ls @ ys, err))
      | _ \<Rightarrow> ([], Some (OSError listfilename)))"

definition filename_list_iterator ::
  "fsys \<Rightarrow> string list \<Rightarrow> string \<Rightarrow> string \<Rightarrow> bool \<Rightarrow> string generator" where
  "filename_list_iterator fs filelist wavdir wavext listflag =
     (if \<not> listflag then (map (\<lambda>filename. path_join wavdir (filename @ wavext)) filelist, None)
      else list_files_iterator fs wavdir wavext filelist)"

subsection \<open>ensure_dir\<close>

definition ensure_dir :: "string \<Rightarrow> fsys \<Rightarrow> fsys" where
  "ensure_dir dirname fs =
     (if length dirname \<noteq> 0 then
        (if \<not> path_exists fs dirname then
           (case makedirs dirname fs of Inl e \<Rightarrow> fs | Inr fs' \<Rightarrow> fs')
         else fs)
      else fs)"

subsection \<open>file_precompute_peaks_or_hashes and file_precompute\<close>

definition output_name :: "externals \<Rightarrow> string \<Rightarrow> string \<Rightarrow> string option \<Rightarrow> bool \<Rightarrow> string \<Rightarrow> string" where
  "output_name ext filename precompdir precompext hashes_not_peaks strip_prefix =
     (let tail_filename =
            (if strip_prefix \<noteq> [] \<and> take (length strip_prefix) filename = strip_prefix
             then drop (length strip_prefix) filename else filename);
          relname = str_join ''/''
            (filter (\<lambda>comp. comp \<noteq> ''.'' \<and> comp \<noteq> ''..'' \<and> comp \<noteq> [])
               (str_split (CHR ''/'') tail_filename));
          root = fst (splitext relname);
          pext = (case precompext of
                    None \<Rightarrow> if hashes_not_peaks then PRECOMPEXT ext else PRECOMPPKEXT ext
                  | Some e \<Rightarrow> e)
      in path_join precompdir (root @ pext))"

definition file_precompute_peaks_or_hashes ::
  "externals \<Rightarrow> analyzer option \<Rightarrow> string \<Rightarrow> string \<Rightarrow> string option \<Rightarrow> bool \<Rightarrow> bool \<Rightarrow> string
     \<Rightarrow> fsys \<Rightarrow> (error + message list) \<times> analyzer option \<times> fsys" where
  "file_precompute_peaks_or_hashes ext analyzer filename precompdir precompext hashes_not_peaks
       skip_existing strip_prefix fs =
     (let opfname = output_name ext filename precompdir precompext hashes_not_peaks strip_prefix
      in if skip_existing \<and> isfile fs opfname then
           (Inr [Str (''file '' @ opfname @ '' exists (and --skip-existing); skipping'')],
            analyzer, fs)
         else
           (case analyzer of
              None \<Rightarrow> (Inl AttributeError, None, fs)
            | Some an \<Rightarrow>
               (case (if hashes_not_peaks then wavfile2hashes ext an filename
                      else wavfile2peaks ext an filename) of
                  (Inl e, an') \<Rightarrow> (Inl e, Some an', fs)
                | (Inr output, an') \<Rightarrow>
                    if length output = 0 then
                      (Inr [Str (''Zero length analysis for '' @ filename @ '' -- not saving.'')],
                       Some an', fs)
                    else
                      (let fs1 = ensure_dir (fst (path_split opfname)) fs
                       in case precomp_save opfname output fs1 of
                            Inl e \<Rightarrow> (Inl e, Some an', fs1)
                          | Inr fs2 \<Rightarrow>
                              (Inr [Wrote opfname (length output)
                                      (if hashes_not_peaks then ''hashes'' else ''peaks'')
                                      (soundfiledur an')],
                               Some an', fs2)))))"

definition file_precompute ::
  "externals \<Rightarrow> analyzer option \<Rightarrow> string \<Rightarrow> string \<Rightarrow> string \<Rightarrow> bool \<Rightarrow> string
     \<Rightarrow> fsys \<Rightarrow> (error + message list) \<times> analyzer option \<times> fsys" where
  "file_precompute ext analyzer filename precompdir type skip_existing strip_prefix fs =
     file_precompute_peaks_or_hashes ext analyzer filename precompdir None (type = ''hashes'')
       skip_existing strip_prefix fs"

subsection \<open>make_ht_from_list\<close>

fun store_files ::
  "externals \<Rightarrow> analyzer option \<Rightarrow> string list \<Rightarrow> hash_table \<Rightarrow> error + hash_table" where
  "store_files ext analyzer [] ht = Inr ht"
| "store_files ext analyzer (filename # rest) ht =
     (case analyzer of
        None \<Rightarrow> Inl AttributeError
      | Some an \<Rightarrow>
          (case wavfile2hashes ext an filename of
             (Inl e, an') \<Rightarrow> Inl e
           | (Inr hs, an') \<Rightarrow> store_files ext (Some an') rest (ht_store ht filename hs)))"

text \<open>The value is what the worker sends down its pipe; a worker that raises sends nothing.\<close>

definition make_ht_from_list ::
  "externals \<Rightarrow> analyzer option \<Rightarrow> string list \<Rightarrow> int \<Rightarrow> int \<Rightarrow> int \<Rightarrow> error + hash_table" where
  "make_ht_from_list ext analyzer filelist hb dp maxtime =
     store_files ext analyzer filelist (HashTable_new ext hb dp maxtime)"

subsection \<open>The state of a run\<close>

text \<open>
  What a run mutates: the file system, the log written by \<open>logger.trace\<close>, the primary
  index \<open>hash_tab\<close> (\<open>None\<close> for precompute), the analyzer (\<open>None\<close> for the commands that
  build none), the paths handed to the index's \<open>save\<close>, in call order, and the process events
  of the orchestrator (a worker started, a partial index received from a worker's pipe,
  merged, the worker joined), in program order.
\<close>

datatype event = Start nat | Recv nat | Merge nat | Join nat

record state =
  disk :: fsys
  trace_log :: "message list list"
  tab :: "hash_table option"
  anl :: "analyzer option"
  saves :: "string list"
  events :: "event list"

text \<open>When a loop over a generator has consumed every yielded value, the generator's own
  exception, if it has one, is raised.\<close>

definition end_of_iteration :: "error option \<Rightarrow> state \<times> outcome \<Rightarrow> state \<times> outcome" where
  "end_of_iteration err r =
     (case r of
        (st, Done) \<Rightarrow> (st, case err of None \<Rightarrow> Done | Some e \<Rightarrow> Raised e)
      | _ \<Rightarrow> r)"

subsection \<open>do_cmd\<close>

text \<open>The body of the merge loop (lines 146 to 152) on the two tables.\<close>

definition merge_tables :: "hash_table \<Rightarrow> hash_table \<Rightarrow> error + hash_table" where
  "merge_tables ht ht2 =
     (if ''samplerate'' \<in> dom (params ht) then
        (case params ht2 ''samplerate'' of
           None \<Rightarrow> Inl (KeyError ''samplerate'')
         | Some sr2 \<Rightarrow>
             if params ht ''samplerate'' = Some sr2 then Inr (ht_merge ht ht2)
             else Inl AssertionError)
      else
        (case params ht2 ''samplerate'' of
           None \<Rightarrow> Inl (KeyError ''samplerate'')
         | Some sr2 \<Rightarrow>
             Inr (ht_merge (ht\<lparr>params := (params ht)(''samplerate'' \<mapsto> sr2)\<rparr>) ht2)))"

fun merge_loop :: "string list \<Rightarrow> state \<Rightarrow> state \<times> outcome" where
  "merge_loop [] st = (st, Done)"
| "merge_loop (filename # rest) st =
     (case HashTable_load filename (disk st) of
        Inl e \<Rightarrow> (st, Raised e)
      | Inr ht2 \<Rightarrow>
          (case tab st of
             None \<Rightarrow> (st, Raised AttributeError)
           | Some ht \<Rightarrow>
               (case merge_tables ht ht2 of
                  Inl e \<Rightarrow> (st, Raised e)
                | Inr ht' \<Rightarrow> merge_loop rest (st\<lparr>tab := Some ht'\<rparr>))))"

fun precompute_loop ::
  "externals \<Rightarrow> string \<Rightarrow> string \<Rightarrow> bool \<Rightarrow> string \<Rightarrow> string list \<Rightarrow> state \<Rightarrow> state \<times> outcome" where
  "precompute_loop ext outdir type skip_existing strip_prefix [] st = (st, Done)"
| "precompute_loop ext outdir type skip_existing strip_prefix (filename # rest) st =
     (case file_precompute ext (anl st) filename outdir type skip_existing strip_prefix (disk st) of
        (Inl e, an', fs') \<Rightarrow> (st\<lparr>disk := fs', anl := an'\<rparr>, Raised e)
      | (Inr msgs, an', fs') \<Rightarrow>
          precompute_loop ext outdir type skip_existing strip_prefix rest
            (st\<lparr>disk := fs', anl := an', trace_log := trace_log st @ [msgs]\<rparr>))"

fun match_loop ::
  "externals \<Rightarrow> matcher option \<Rightarrow> string list \<Rightarrow> nat \<Rightarrow> state \<Rightarrow> state \<times> outcome" where
  "match_loop ext mt [] num st = (st, Done)"
| "match_loop ext mt (filename # rest) num st =
     (case mt of
        None \<Rightarrow> (st, Raised AttributeError)
      | Some m \<Rightarrow>
          match_loop ext mt rest (num + 1)
            (st\<lparr>trace_log := trace_log st
                   @ [match_report ext m (anl st) (tab st) filename (Some num)]\<rparr>))"

fun ingest_loop ::
  "externals \<Rightarrow> string list \<Rightarrow> nat \<Rightarrow> nat \<Rightarrow> state \<Rightarrow> (error + nat) \<times> state" where
  "ingest_loop ext [] tothashes ix st = (Inr tothashes, st)"
| "ingest_loop ext (filename # rest) tothashes ix st =
     (let st1 = st\<lparr>trace_log := trace_log st @ [[Ingesting ix filename]]\<rparr>
      in case anl st1 of
           None \<Rightarrow> (Inl AttributeError, st1)
         | Some an \<Rightarrow>
             (case ingest ext an (tab st1) filename of
                (Inl e, an', ht') \<Rightarrow> (Inl e, st1\<lparr>tab := ht', anl := Some an'\<rparr>)
              | (Inr (dur, nhash), an', ht') \<Rightarrow>
                  ingest_loop ext rest (tothashes + nhash) (ix + 1)
                    (st1\<lparr>tab := ht', anl := Some an'\<rparr>)))"

fun remove_loop :: "string list \<Rightarrow> state \<Rightarrow> state \<times> outcome" where
  "remove_loop [] st = (st, Done)"
| "remove_loop (filename # rest) st =
     (case tab st of
        None \<Rightarrow> (st, Raised AttributeError)
      | Some ht \<Rightarrow> remove_loop rest (st\<lparr>tab := Some (ht_remove ht filename)\<rparr>))"

definition do_cmd ::
  "externals \<Rightarrow> string \<Rightarrow> string generator \<Rightarrow> matcher option \<Rightarrow> string \<Rightarrow> string \<Rightarrow> bool \<Rightarrow> string
     \<Rightarrow> state \<Rightarrow> state \<times> outcome" where
  "do_cmd ext cmd filename_iter mt outdir type skip_existing strip_prefix st =
     (if cmd = ''merge'' \<or> cmd = ''newmerge'' then
        end_of_iteration (snd filename_iter) (merge_loop (fst filename_iter) st)
      else if cmd = ''precompute'' then
        end_of_iteration (snd filename_iter)
          (precompute_loop ext outdir type skip_existing strip_prefix (fst filename_iter) st)
      else if cmd = ''match'' then
        end_of_iteration (snd filename_iter) (match_loop ext mt (fst filename_iter) 0 st)
      else if cmd = ''new'' \<or> cmd = ''add'' then
        (case ingest_loop ext (fst filename_iter) 0 0 st of
           (Inl e, st1) \<Rightarrow> (st1, Raised e)
         | (Inr tothashes, st1) \<Rightarrow>
             (case snd filename_iter of
                Some e \<Rightarrow> (st1, Raised e)
              | None \<Rightarrow>
                  (case anl st1 of
                     None \<Rightarrow> (st1, Raised AttributeError)
                   | Some an \<Rightarrow>
                       if soundfiletotaldur an = 0 then (st1, Raised ZeroDivisionError)
                       else (st1\<lparr>trace_log := trace_log st1
                                    @ [[Added tothashes (real tothashes / soundfiletotaldur an)]]\<rparr>,
                             Done))))
      else if cmd = ''remove'' then
        end_of_iteration (snd filename_iter) (remove_loop (fst filename_iter) st)
      else if cmd = ''list'' then
        (case tab st of
           None \<Rightarrow> (st, Raised AttributeError)
         | Some ht \<Rightarrow> (st\<lparr>trace_log := trace_log st @ map (\<lambda>x. [Str x]) (names ht)\<rparr>, Done))
      else (st, Raised (ValueError (''unrecognized command: '' @ cmd))))"

subsection \<open>multiproc_add\<close>

text \<open>The loop of lines 203 to 206 that unpacks the files into \<open>ncores\<close> lists.\<close>

fun split_files :: "nat \<Rightarrow> 'a list \<Rightarrow> nat \<Rightarrow> 'a list list \<Rightarrow> 'a list list" where
  "split_files ncores [] ix filelists = filelists"
| "split_files ncores (filename # rest) ix filelists =
     split_files ncores rest (ix + 1)
       (filelists[ix mod ncores := filelists ! (ix mod ncores) @ [filename]])"

text \<open>
  The workers run in processes of their own and finish in an order the program does not
  control: \<open>sched\<close> lists the workers in the order they finish, and a worker absent from it
  never finishes. A worker that finishes without raising has sent its table down its pipe.
\<close>

fun deliver ::
  "(nat \<Rightarrow> error + hash_table) \<Rightarrow> nat list \<Rightarrow> (nat \<rightharpoonup> hash_table) \<Rightarrow> (nat \<rightharpoonup> hash_table)" where
  "deliver sent [] pipes = pipes"
| "deliver sent (ix # rest) pipes =
     deliver sent rest (case sent ix of Inl e \<Rightarrow> pipes | Inr htx \<Rightarrow> pipes(ix \<mapsto> htx))"

text \<open>The gathering loop of lines 218 to 227; a receive on an empty pipe never returns.\<close>

fun gather :: "(nat \<rightharpoonup> hash_table) \<Rightarrow> nat list \<Rightarrow> state \<Rightarrow> state \<times> outcome" where
  "gather pipes [] st = (st, Done)"
| "gather pipes (core # rest) st =
     (case pipes core of
        None \<Rightarrow> (st, Blocked)
      | Some hash_tabx \<Rightarrow>
          (let st1 = st\<lparr>events := events st @ [Recv core],
                        trace_log := trace_log st
                          @ [[TableInfo core (length (names hash_tabx)) (sum_list (counts hash_tabx))]]\<rparr>
           in case tab st1 of
                None \<Rightarrow> (st1, Raised AttributeError)
              | Some ht \<Rightarrow>
                  gather pipes rest
                    (st1\<lparr>tab := Some (ht_merge ht hash_tabx),
                         events := events st1 @ [Merge core, Join core]\<rparr>)))"

definition multiproc_add ::
  "externals \<Rightarrow> nat list \<Rightarrow> string generator \<Rightarrow> nat \<Rightarrow> state \<Rightarrow> state \<times> outcome" where
  "multiproc_add ext sched filename_iter ncores st =
     (if ncores = 0 \<and> fst filename_iter \<noteq> [] then (st, Raised ZeroDivisionError)
      else
        (case snd filename_iter of
           Some e \<Rightarrow> (st, Raised e)
         | None \<Rightarrow>
             (let filelists = split_files ncores (fst filename_iter) 0 (replicate ncores [])
              in if ncores = 0 then (st, Done)
                 else
                   (case tab st of
                      None \<Rightarrow> (st, Raised AttributeError)
                    | Some ht \<Rightarrow>
                        (case shift_left_one (maxtimebits ht) of
                           Inl e \<Rightarrow> (st, Raised e)
                         | Inr maxtime \<Rightarrow>
                             (let sent = (\<lambda>ix. make_ht_from_list ext (anl st) (filelists ! ix)
                                                 (hashbits ht) (depth ht) maxtime);
                                  st1 = st\<lparr>events := events st @ map Start [0..<ncores]\<rparr>;
                                  pipes = deliver sent (filter (\<lambda>ix. ix < ncores) sched) Map.empty
                              in gather pipes [0..<ncores] st1))))))"

subsection \<open>do_cmd_multiproc\<close>

text \<open>
  \<open>joblib.Parallel(n_jobs)(tasks)\<close> runs the tasks in worker processes and returns their
  results as a list in the order of the tasks. The tasks finish in the order \<open>sched\<close>, each
  acting on the file system when it runs; a task that raises makes the call raise, and a
  task that never finishes makes it never return.
\<close>

fun run_tasks ::
  "(nat \<Rightarrow> fsys \<Rightarrow> (error + 'r) \<times> fsys) \<Rightarrow> nat list \<Rightarrow> fsys \<Rightarrow> (nat \<times> 'r) list
     \<Rightarrow> (error + (nat \<times> 'r) list) \<times> fsys" where
  "run_tasks task [] fs finished = (Inr finished, fs)"
| "run_tasks task (i # rest) fs finished =
     (case task i fs of
        (Inl e, fs') \<Rightarrow> (Inl e, fs')
      | (Inr r, fs') \<Rightarrow> run_tasks task rest fs' (finished @ [(i, r)]))"

definition Parallel ::
  "nat list \<Rightarrow> nat \<Rightarrow> nat \<Rightarrow> (nat \<Rightarrow> fsys \<Rightarrow> (error + 'r) \<times> fsys) \<Rightarrow> fsys
     \<Rightarrow> (outcome \<times> 'r list) \<times> fsys" where
  "Parallel sched n_jobs n task fs =
     (case run_tasks task (remdups (filter (\<lambda>i. i < n) sched)) fs [] of
        (Inl e, fs') \<Rightarrow> ((Raised e, []), fs')
      | (Inr finished, fs') \<Rightarrow>
          (case those (map (map_of finished) [0..<n]) of
             None \<Rightarrow> ((Blocked, []), fs')
           | Some results \<Rightarrow> ((Done, results), fs')))"

text \<open>Lines 246 to 247 and 258 to 259: the results are logged in list order, once all are in.\<close>

definition log_results ::
  "error option \<Rightarrow> (outcome \<times> message list list) \<times> fsys \<Rightarrow> state \<Rightarrow> state \<times> outcome" where
  "log_results err r st =
     (case r of
        ((Done, msgslist), fs') \<Rightarrow>
          (case err of
             Some e \<Rightarrow> (st\<lparr>disk := fs'\<rparr>, Raised e)
           | None \<Rightarrow> (st\<lparr>disk := fs', trace_log := trace_log st @ msgslist\<rparr>, Done))
      | ((oc, msgslist), fs') \<Rightarrow> (st\<lparr>disk := fs'\<rparr>, oc))"

definition matcher_file_match_to_msgs ::
  "externals \<Rightarrow> matcher option \<Rightarrow> analyzer option \<Rightarrow> hash_table option \<Rightarrow> string
     \<Rightarrow> error + message list" where
  "matcher_file_match_to_msgs ext mt an ht filename =
     (case mt of
        None \<Rightarrow> Inl AttributeError
      | Some m \<Rightarrow> Inr (match_report ext m an ht filename None))"

definition do_cmd_multiproc ::
  "externals \<Rightarrow> nat list \<Rightarrow> string \<Rightarrow> string generator \<Rightarrow> matcher option \<Rightarrow> string \<Rightarrow> string
     \<Rightarrow> bool \<Rightarrow> string \<Rightarrow> nat \<Rightarrow> state \<Rightarrow> state \<times> outcome" where
  "do_cmd_multiproc ext sched cmd filename_iter mt outdir type skip_existing strip_prefix ncores st =
     (if cmd = ''precompute'' then
        log_results (snd filename_iter)
          (Parallel sched ncores (length (fst filename_iter))
             (\<lambda>i fs. case file_precompute ext (anl st) (fst filename_iter ! i) outdir type
                              skip_existing strip_prefix fs of
                        (r, an', fs') \<Rightarrow> (r, fs'))
             (disk st)) st
      else if cmd = ''match'' then
        log_results (snd filename_iter)
          (Parallel sched ncores (length (fst filename_iter))
             (\<lambda>i fs. (matcher_file_match_to_msgs ext mt (anl st) (tab st) (fst filename_iter ! i), fs))
             (disk st)) st
      else if cmd = ''new'' \<or> cmd = ''add'' then
        multiproc_add ext sched filename_iter ncores st
      else (st, Raised (ValueError (''unrecognized multiproc command: '' @ cmd))))"

subsection \<open>setup_analyzer and setup_matcher\<close>

definition setup_analyzer ::
  "real \<Rightarrow> bool \<Rightarrow> int \<Rightarrow> int \<Rightarrow> real \<Rightarrow> int \<Rightarrow> int \<Rightarrow> bool \<Rightarrow> analyzer" where
  "setup_analyzer dens is_match pks_per_frame fanout freq_sd shfts samplerate continue_on_error =
     (let an = Analyzer_new\<lparr>density := dens, maxpksperframe := pks_per_frame,
                             maxpairsperpeak := fanout, f_sd := freq_sd, shifts := shfts,
                             target_sr := samplerate, n_fft := 512, n_hop := 512 div 2\<rparr>;
          an1 = (if shifts an = 0 then an\<lparr>shifts := (if is_match then 4 else 1)\<rparr> else an)
      in an1\<lparr>fail_on_error := \<not> continue_on_error\<rparr>)"

definition setup_matcher ::
  "int \<Rightarrow> int \<Rightarrow> int \<Rightarrow> int \<Rightarrow> bool \<Rightarrow> bool \<Rightarrow> real \<Rightarrow> bool \<Rightarrow> bool \<Rightarrow> bool \<Rightarrow> matcher" where
  "setup_matcher match_win depth_of_search min_count max_matches exact find_range quantile
       sortbytime illus illus_hpf =
     \<lparr>window = match_win, threshcount = min_count, max_returns = max_matches,
      search_depth = depth_of_search, sort_by_time = sortbytime,
      exact_count = (exact \<or> illus \<or> illus_hpf), illustrate = (illus \<or> illus_hpf),
      illustrate_hpf = illus_hpf, find_time_range = find_range, time_quantile = quantile\<rparr>"

subsection \<open>main\<close>

text \<open>
  The command line as click hands it to \<open>main\<close>. An option without a declared type or
  default (\<open>--dbase\<close>, \<open>--maxtimebits\<close>) arrives as a string, or as \<open>None\<close> when absent. The
  options that only configure the logger (\<open>--opfile\<close>, \<open>--verbose\<close>) are left out.
\<close>

record options =
  o_cmd :: string
  o_dbase :: "string option"
  o_density :: real
  o_hashbits :: int
  o_bucketsize :: int
  o_maxtime :: int
  o_maxtimebits :: "string option"
  o_samplerate :: int
  o_precompdir :: string
  o_shifts :: int
  o_match_win :: int
  o_min_count :: int
  o_max_matches :: int
  o_exact_count :: bool
  o_find_time_range :: bool
  o_time_quantile :: real
  o_freq_sd :: real
  o_fanout :: int
  o_pks_per_frame :: int
  o_search_depth :: int
  o_ncores :: int
  o_precompute_peaks :: bool
  o_skip_existing :: bool
  o_continue_on_error :: bool
  o_list :: bool
  o_sortbytime :: bool
  o_illustrate :: bool
  o_illustrate_hpf :: bool
  o_wavdir :: string
  o_wavext :: string
  o_file :: "string list"

definition choices :: "string list" where
  "choices = [''new'', ''add'', ''precompute'', ''merge'', ''newmerge'', ''match'', ''list'',
              ''remove'']"

text \<open>The test of line 406 that picks the executor.\<close>

datatype executor = SingleProcess | MultiProcess

definition select_executor :: "string \<Rightarrow> int \<Rightarrow> executor" where
  "select_executor cmd ncores =
     (if ncores > 1 \<and> cmd \<notin> set [''merge'', ''newmerge'', ''list'', ''remove'']
      then MultiProcess else SingleProcess)"

text \<open>
  \<open>maxtime=(1 << maxtimebits)\<close> of line 379: \<open>maxtimebits\<close> is the option's string when
  one was given (and a string cannot be a shift count), else the bit width of \<open>--maxtime\<close>.
\<close>

definition new_maxtime :: "externals \<Rightarrow> options \<Rightarrow> error + int" where
  "new_maxtime ext opts =
     (case o_maxtimebits opts of
        None \<Rightarrow> shift_left_one (bitsfor ext (o_maxtime opts))
      | Some s \<Rightarrow>
          if s = [] then shift_left_one (bitsfor ext (o_maxtime opts)) else Inl TypeError)"

text \<open>Lines 366 to 393: the index handle of the run.\<close>

definition open_table :: "externals \<Rightarrow> options \<Rightarrow> state \<Rightarrow> state \<times> outcome" where
  "open_table ext opts st =
     (if o_cmd opts \<noteq> ''precompute'' then
        (case o_dbase opts of
           None \<Rightarrow> (st, Raised (ValueError ''dbase name must be provided if not precompute''))
         | Some dbase \<Rightarrow>
             if dbase = [] then
               (st, Raised (ValueError ''dbase name must be provided if not precompute''))
             else if o_cmd opts \<in> set [''new'', ''newmerge''] then
               (let st1 = st\<lparr>disk := ensure_dir (fst (path_split dbase)) (disk st)\<rparr>
                in case new_maxtime ext opts of
                     Inl e \<Rightarrow> (st1, Raised e)
                   | Inr maxtime \<Rightarrow>
                       (let ht = HashTable_new ext (o_hashbits opts) (o_bucketsize opts) maxtime;
                            ht1 = (case anl st1 of
                                     Some an \<Rightarrow>
                                       ht\<lparr>params := (params ht)(''samplerate'' \<mapsto> target_sr an)\<rparr>
                                   | None \<Rightarrow> ht)
                        in (st1\<lparr>tab := Some ht1\<rparr>, Done)))
             else
               (let st1 = st\<lparr>trace_log := trace_log st @ [[Reading dbase]]\<rparr>
                in case HashTable_load dbase (disk st1) of
                     Inl e \<Rightarrow> (st1, Raised e)
                   | Inr ht \<Rightarrow> (st1\<lparr>tab := Some ht\<rparr>, Done)))
      else (st\<lparr>tab := None\<rparr>, Done))"

text \<open>Lines 361 to 364 and 396: the analyzer, the precompute kind and the matcher of the run.\<close>

definition initial_state :: "options \<Rightarrow> fsys \<Rightarrow> state" where
  "initial_state opts fs0 =
     \<lparr>disk = fs0, trace_log = [], tab = None,
      anl = (if o_cmd opts \<notin> set [''merge'', ''newmerge'', ''list'', ''remove'']
             then Some (setup_analyzer (o_density opts) (o_cmd opts = ''match'')
                          (o_pks_per_frame opts) (o_fanout opts) (o_freq_sd opts) (o_shifts opts)
                          (o_samplerate opts) (o_continue_on_error opts))
             else None),
      saves = [], events = []\<rparr>"

definition precomp_type :: "options \<Rightarrow> string" where
  "precomp_type opts = (if \<not> o_precompute_peaks opts then ''hashes'' else ''peaks'')"

definition the_matcher :: "options \<Rightarrow> matcher option" where
  "the_matcher opts =
     (if o_cmd opts = ''match''
      then Some (setup_matcher (o_match_win opts) (o_search_depth opts) (o_min_count opts)
                   (o_max_matches opts) (o_exact_count opts) (o_find_time_range opts)
                   (o_time_quantile opts) (o_sortbytime opts) (o_illustrate opts)
                   (o_illustrate_hpf opts))
      else None)"

text \<open>
  Lines 349 to 425: everything before the final save. The call of \<open>do_cmd_multiproc\<close> at
  line 408 passes seven positional arguments and the keywords \<open>skip_existing\<close>,
  \<open>strip_prefix\<close> and \<open>ncores\<close>, while the function's eighth parameter \<open>report\<close> has no
  default: Python raises a \<open>TypeError\<close> at the call, before the function's body runs.
  The generator of file names is lazy; it is read here against the file system as it
  stands when the command starts.
\<close>

definition run_command :: "externals \<Rightarrow> options \<Rightarrow> fsys \<Rightarrow> state \<times> outcome" where
  "run_command ext opts fs0 =
     (if o_cmd opts \<notin> set choices
      then (initial_state opts fs0, Raised (UsageError (o_cmd opts)))
      else
        (case open_table ext opts (initial_state opts fs0) of
           (st1, Done) \<Rightarrow>
             (case select_executor (o_cmd opts) (o_ncores opts) of
                MultiProcess \<Rightarrow> (st1, Raised TypeError)
              | SingleProcess \<Rightarrow>
                  do_cmd ext (o_cmd opts)
                    (filename_list_iterator (disk st1) (o_file opts) (o_wavdir opts)
                       (o_wavext opts) (o_list opts))
                    (the_matcher opts) (o_precompdir opts) (precomp_type opts)
                    (o_skip_existing opts) (o_wavdir opts) st1)
         | r \<Rightarrow> r))"

text \<open>
  Lines 427 to 430: save the hash table file if it has been modified. An index handle is an
  object and counts as true; only \<open>None\<close> (precompute) is false.
\<close>

definition persist :: "options \<Rightarrow> state \<Rightarrow> state \<times> outcome" where
  "persist opts st =
     (case tab st of
        None \<Rightarrow> (st, Done)
      | Some ht \<Rightarrow>
          if dirty ht then
            (case o_dbase opts of
               None \<Rightarrow> (st, Raised TypeError)
             | Some dbase \<Rightarrow>
                 (case ht_save ht dbase (disk st) of
                    (Inl e, fs') \<Rightarrow> (st\<lparr>saves := saves st @ [dbase], disk := fs'\<rparr>, Raised e)
                  | (Inr ht', fs') \<Rightarrow>
                      (st\<lparr>saves := saves st @ [dbase], disk := fs', tab := Some ht'\<rparr>, Done)))
          else (st, Done))"

definition main :: "externals \<Rightarrow> options \<Rightarrow> fsys \<Rightarrow> state \<times> outcome" where
  "main ext opts fs0 =
     (case run_command ext opts fs0 of
        (st, Done) \<Rightarrow> persist opts st
      | r \<Rightarrow> r)"

section \<open>Notions used to state the properties\<close>

text \<open>The hashes the analysis of a file contributes to an index when no error is raised.\<close>

definition hashes_of :: "externals \<Rightarrow> string \<Rightarrow> hashes" where
  "hashes_of ext filename = (case audio ext filename of None \<Rightarrow> [] | Some (dur, pks, hs) \<Rightarrow> hs)"

text \<open>The partial index a worker builds over its list of files for the primary index \<open>ht\<close>.\<close>

definition partial_index :: "externals \<Rightarrow> hash_table \<Rightarrow> string list \<Rightarrow> hash_table" where
  "partial_index ext ht filelist =
     (HashTable_new ext (hashbits ht) (depth ht) (2 ^ nat (maxtimebits ht)))
       \<lparr>blocks := map (\<lambda>f. (f, hashes_of ext f)) filelist, dirty := (filelist \<noteq> [])\<rparr>"

section \<open>Sample inputs\<close>

text \<open>The options click builds when only the command and the files are given.\<close>

definition default_options :: "string \<Rightarrow> string list \<Rightarrow> options" where
  "default_options cmd fl =
     \<lparr>o_cmd = cmd, o_dbase = None, o_density = 20, o_hashbits = 20, o_bucketsize = 100,
      o_maxtime = 16384, o_maxtimebits = None, o_samplerate = 11025, o_precompdir = ''.'',
      o_shifts = 0, o_match_win = 2, o_min_count = 5, o_max_matches = 1, o_exact_count = False,
      o_find_time_range = False, o_time_quantile = 5 / 100, o_freq_sd = 30, o_fanout = 3,
      o_pks_per_frame = 5, o_search_depth = 100, o_ncores = 1, o_precompute_peaks = False,
      o_skip_existing = False, o_continue_on_error = False, o_list = False, o_sortbytime = False,
      o_illustrate = False, o_illustrate_hpf = False, o_wavdir = [], o_wavext = [],
      o_file = fl\<rparr>"

definition sample_externals :: externals where
  "sample_externals =
     \<lparr>bitsfor = (\<lambda>n. if n = 16384 then 14 else 0),
      audio = (\<lambda>f. if f = ''a.wav'' then Some (3, [(1, 2)], [(1, 5), (2, 7)])
                   else if f = ''b.wav'' then Some (2, [(4, 4)], [(3, 9)])
                   else if f = ''silence.wav'' then Some (1, [], [])
                   else None),
      match_report = (\<lambda>m an ht f num. [Str f]),
      PRECOMPEXT = ''.afpt'', PRECOMPPKEXT = ''.afpk''\<rparr>"

definition empty_disk :: fsys where
  "empty_disk = \<lparr>dirs = {}, nomkdir = {}, files = Map.empty\<rparr>"

definition newmerge_options :: options where
  "newmerge_options = (default_options ''newmerge'' [])\<lparr>o_dbase := Some ''db'', o_ncores := 4\<rparr>"

text \<open>Two stored indexes without a sample rate, and a run whose primary index is given
  and whose disk holds the given index files.\<close>

definition table_a :: hash_table where
  "table_a = \<lparr>hashbits = 20, depth = 100, maxtimebits = 14, params = Map.empty,
              blocks = [(''a.wav'', [(1, 5), (2, 7)])], dirty = False\<rparr>"

definition table_b :: hash_table where
  "table_b = \<lparr>hashbits = 20, depth = 100, maxtimebits = 14, params = Map.empty,
              blocks = [(''b.wav'', [(3, 9)])], dirty = False\<rparr>"

definition table_state :: "hash_table \<Rightarrow> (string \<times> hash_table) list \<Rightarrow> state" where
  "table_state ht stored =
     \<lparr>disk = \<lparr>dirs = {}, nomkdir = {}, files = map_of (map (\<lambda>(n, t). (n, Index t)) stored)\<rparr>,
      trace_log = [], tab = Some ht, anl = None, saves = [], events = []\<rparr>"

definition new_options :: options where
  "new_options = (default_options ''new'' [])\<lparr>o_dbase := Some ''db''\<rparr>"

text \<open>The one message of a precompute that skips a file whose output exists (line 87).\<close>

definition skip_message :: "string \<Rightarrow> message" where
  "skip_message opfname = Str (''file '' @ opfname @ '' exists (and --skip-existing); skipping'')"

text \<open>An analyzer as \<open>main\<close> sets it up by default, and a disk that holds only the current directory.\<close>

definition sample_analyzer :: analyzer where
  "sample_analyzer = setup_analyzer 20 False 5 3 30 0 11025 False"

definition disk_with_dot :: fsys where
  "disk_with_dot = \<lparr>dirs = {''.''}, nomkdir = {}, files = Map.empty\<rparr>"

text \<open>The state in which a new command starts its work, and its primary index.\<close>

definition build_state :: state where
  "build_state =
     \<lparr>disk = empty_disk, trace_log = [],
      tab = Some ((HashTable_new sample_externals 20 100 16384)
                    \<lparr>params := [''samplerate'' \<mapsto> 11025]\<rparr>),
      anl = Some sample_analyzer, saves = [], events = []\<rparr>"

definition build_table :: hash_table where
  "build_table = (HashTable_new sample_externals 20 100 16384)\<lparr>params := [''samplerate'' \<mapsto> 11025]\<rparr>"

text \<open>
  A block of messages that \<open>file_precompute\<close> returns for a file: the skip message or
  the written-artifact message for its output name, or the zero-length message for the file.
\<close>

definition precompute_block :: "externals \<Rightarrow> string \<Rightarrow> string \<Rightarrow> string \<Rightarrow> string \<Rightarrow> message list \<Rightarrow> bool" where
  "precompute_block ext outdir ty sp filename msgs =
     (case msgs of
        [Str s] \<Rightarrow>
          s = ''file '' @ output_name ext filename outdir None (ty = ''hashes'') sp
                @ '' exists (and --skip-existing); skipping''
          \<or> s = ''Zero length analysis for '' @ filename @ '' -- not saving.''
      | [Wrote opfname n kind dur] \<Rightarrow>
          opfname = output_name ext filename outdir None (ty = ''hashes'') sp
      | _ \<Rightarrow> False)"

text \<open>A matcher as \<open>main\<close> sets it up by default, and the state in which a precompute
  command starts on a disk that holds only the current directory.\<close>

definition sample_matcher :: matcher where
  "sample_matcher = setup_matcher 2 100 5 1 False False (5 / 100) False False False"

definition precompute_state :: state where
  "precompute_state =
     \<lparr>disk = disk_with_dot, trace_log = [], tab = None, anl = Some sample_analyzer,
      saves = [], events = []\<rparr>"

text \<open>A disk that holds one stored index with a sample rate, and a newmerge of it.\<close>

definition disk_b :: fsys where
  "disk_b = \<lparr>dirs = {}, nomkdir = {},
             files = [''b.db'' \<mapsto> Index (table_b\<lparr>params := [''samplerate'' \<mapsto> 22050]\<rparr>)]\<rparr>"

definition newmerge_b_options :: options where
  "newmerge_b_options = newmerge_options\<lparr>o_file := [''b.db'']\<rparr>"

text \<open>A disk on which the directory of the index cannot be created, and a new command
  whose index lies there.\<close>

definition locked_disk :: fsys where
  "locked_disk = \<lparr>dirs = {''/locked''}, nomkdir = {''/locked/out''}, files = Map.empty\<rparr>"

definition new_locked_options :: options where
  "new_locked_options = (default_options ''new'' [''a.wav''])\<lparr>o_dbase := Some ''/locked/out/db''\<rparr>"

section \<open>Properties\<close>

subsection \<open>Choice of the executor\<close>

lemma in_choices:
  "cmd \<in> set choices \<Longrightarrow>
     cmd \<in> {''new'', ''add'', ''precompute'', ''merge'', ''newmerge'', ''match'', ''list'', ''remove''}"
  by (simp add: choices_def)

text \<open>
  C4: for every command and every requested concurrency degree, \<open>main\<close> picks the
  multi-process executor exactly when the degree exceeds 1 and the command is one of
  precompute, match, new and add; when the degree is at most 1 or the command is merge,
  newmerge, list or remove, the run is the single-process executor \<open>do_cmd\<close>, whatever the
  degree. (Where the multi-process executor is picked, the call at line 408 lacks the
  argument \<open>report\<close> and raises before the executor's body runs.)
\<close>

theorem executor_selection:
  "o_cmd opts \<in> set choices \<Longrightarrow> open_table ext opts (initial_state opts fs0) = (st1, Done) \<Longrightarrow>
     ((select_executor (o_cmd opts) (o_ncores opts) = MultiProcess)
        = (o_ncores opts > 1 \<and> o_cmd opts \<in> {''precompute'', ''match'', ''new'', ''add''}))
     \<and> (o_ncores opts \<le> 1 \<or> o_cmd opts \<in> {''merge'', ''newmerge'', ''list'', ''remove''} \<longrightarrow>
           select_executor (o_cmd opts) (o_ncores opts) = SingleProcess \<and>
           run_command ext opts fs0 =
             do_cmd ext (o_cmd opts)
               (filename_list_iterator (disk st1) (o_file opts) (o_wavdir opts) (o_wavext opts)
                  (o_list opts))
               (the_matcher opts) (o_precompdir opts) (precomp_type opts)
               (o_skip_existing opts) (o_wavdir opts) st1)
     \<and> (o_ncores opts > 1 \<and> o_cmd opts \<in> {''precompute'', ''match'', ''new'', ''add''} \<longrightarrow>
           run_command ext opts fs0 = (st1, Raised TypeError))"
  using in_choices[of "o_cmd opts"]
  by (auto simp: select_executor_def run_command_def)

lemma open_table_newmerge_sample:
  "open_table sample_externals newmerge_options (initial_state newmerge_options empty_disk) =
     (\<lparr>disk = empty_disk, trace_log = [],
       tab = Some (HashTable_new sample_externals 20 100 16384), anl = None,
       saves = [], events = []\<rparr>, Done)"
  by (simp add: open_table_def newmerge_options_def default_options_def initial_state_def
        sample_externals_def empty_disk_def path_split_def ensure_dir_def new_maxtime_def
        shift_left_one_def HashTable_new_def)

theorem executor_selection_witness:
  "o_cmd newmerge_options \<in> set choices \<and> o_ncores newmerge_options = 4
   \<and> select_executor (o_cmd newmerge_options) (o_ncores newmerge_options) = SingleProcess
   \<and> run_command sample_externals newmerge_options empty_disk =
       do_cmd sample_externals ''newmerge'' ([], None) None ''.'' ''hashes'' False []
         \<lparr>disk = empty_disk, trace_log = [],
          tab = Some (HashTable_new sample_externals 20 100 16384), anl = None,
          saves = [], events = []\<rparr>"
proof -
  have c: "o_cmd newmerge_options \<in> set choices"
    by (simp add: newmerge_options_def default_options_def choices_def)
  from executor_selection[OF c open_table_newmerge_sample]
  show ?thesis
    by (simp add: newmerge_options_def default_options_def choices_def the_matcher_def
          precomp_type_def filename_list_iterator_def)
qed

subsection \<open>The round-robin split of the file list\<close>

lemma split_files_length: "length (split_files n xs ix fl) = length fl"
  by (induction xs arbitrary: ix fl) simp_all

lemma split_files_nth:
  "k < length fl \<Longrightarrow> length fl = n \<Longrightarrow>
     split_files n xs ix fl ! k = fl ! k @ map snd (filter (\<lambda>p. fst p mod n = k) (enumerate ix xs))"
proof (induction xs arbitrary: ix fl)
  case Nil
  then show ?case by simp
next
  case (Cons x xs)
  from Cons.prems have pos: "0 < n" by auto
  let ?fl = "fl[ix mod n := fl ! (ix mod n) @ [x]]"
  have "split_files n (x # xs) ix fl ! k = split_files n xs (Suc ix) ?fl ! k" by simp
  also have "\<dots> = ?fl ! k @ map snd (filter (\<lambda>p. fst p mod n = k) (enumerate (Suc ix) xs))"
    using Cons.prems by (intro Cons.IH) simp_all
  also have "\<dots> = fl ! k @ map snd (filter (\<lambda>p. fst p mod n = k) (enumerate ix (x # xs)))"
    using Cons.prems pos by (auto simp: nth_list_update)
  finally show ?case .
qed

lemma mset_concat_append_at:
  "i < length fl \<Longrightarrow> mset (concat (fl[i := fl ! i @ [x]])) = add_mset x (mset (concat fl))"
proof (induction fl arbitrary: i)
  case Nil
  then show ?case by simp
next
  case (Cons a fl)
  then show ?case by (cases i) simp_all
qed

lemma mset_concat_split_files:
  "length fl = n \<Longrightarrow> 0 < n \<Longrightarrow>
     mset (concat (split_files n xs ix fl)) = mset (concat fl) + mset xs"
proof (induction xs arbitrary: ix fl)
  case Nil
  then show ?case by simp
next
  case (Cons x xs)
  then show ?case by (simp add: mset_concat_append_at)
qed

lemma partitions_disjoint:
  assumes "distinct xs" "j \<noteq> k"
  shows "set (map snd (filter (\<lambda>p. fst p mod n = j) (enumerate 0 xs)))
           \<inter> set (map snd (filter (\<lambda>p. fst p mod n = k) (enumerate 0 xs))) = {}"
proof -
  { fix x assume a: "x \<in> set (map snd (filter (\<lambda>p. fst p mod n = j) (enumerate 0 xs)))"
      and b: "x \<in> set (map snd (filter (\<lambda>p. fst p mod n = k) (enumerate 0 xs)))"
    from a obtain i where i: "i < length xs" "xs ! i = x" "i mod n = j"
      by (auto simp: in_set_enumerate_eq)
    from b obtain i' where i': "i' < length xs" "xs ! i' = x" "i' mod n = k"
      by (auto simp: in_set_enumerate_eq)
    from i i' assms(1) have "i = i'" by (metis nth_eq_iff_index_eq)
    with i i' assms(2) have False by simp }
  then show ?thesis by blast
qed

text \<open>
  C5: for every sequence of file names and every N of at least 1, the split of
  \<open>multiproc_add\<close> yields N lists; list k holds, in input order, the files at the positions
  congruent to k modulo N (round-robin), so every position of the input lies in exactly one
  list; the lists together hold exactly the input, each occurrence once; and when the names
  are distinct the lists are pairwise disjoint.
\<close>

theorem round_robin_partition:
  "0 < n \<Longrightarrow>
     length (split_files n filenames 0 (replicate n [])) = n
   \<and> (\<forall>k<n. split_files n filenames 0 (replicate n []) ! k
               = map snd (filter (\<lambda>p. fst p mod n = k) (enumerate 0 filenames)))
   \<and> mset (concat (split_files n filenames 0 (replicate n []))) = mset filenames
   \<and> (distinct filenames \<longrightarrow>
        (\<forall>j<n. \<forall>k<n. j \<noteq> k \<longrightarrow>
           set (split_files n filenames 0 (replicate n []) ! j)
             \<inter> set (split_files n filenames 0 (replicate n []) ! k) = {}))"
proof (intro conjI allI impI)
  assume n: "0 < n"
  show "length (split_files n filenames 0 (replicate n [])) = n"
    by (simp add: split_files_length)
  show "split_files n filenames 0 (replicate n []) ! k
          = map snd (filter (\<lambda>p. fst p mod n = k) (enumerate 0 filenames))" if "k < n" for k
    using that by (simp add: split_files_nth)
  show "mset (concat (split_files n filenames 0 (replicate n []))) = mset filenames"
    using n by (simp add: mset_concat_split_files)
  show "set (split_files n filenames 0 (replicate n []) ! j)
          \<inter> set (split_files n filenames 0 (replicate n []) ! k) = {}"
    if "distinct filenames" "j < n" "k < n" "j \<noteq> k" for j k
    using that partitions_disjoint[OF that(1) that(4), of n] by (simp add: split_files_nth)
qed

theorem round_robin_partition_witness:
  "(0::nat) < 2
   \<and> split_files 2 [''a'', ''b'', ''c'', ''d'', ''e''] 0 (replicate 2 [])
       = [[''a'', ''c'', ''e''], [''b'', ''d'']]
   \<and> mset (concat (split_files 2 [''a'', ''b'', ''c'', ''d'', ''e''] 0 (replicate 2 [])))
       = mset [''a'', ''b'', ''c'', ''d'', ''e'']
   \<and> set (split_files 2 [''a'', ''b'', ''c'', ''d'', ''e''] 0 (replicate 2 []) ! 0)
       \<inter> set (split_files 2 [''a'', ''b'', ''c'', ''d'', ''e''] 0 (replicate 2 []) ! 1) = {}"
proof -
  have pos: "(0::nat) < 2" by simp
  have d: "distinct [''a'', ''b'', ''c'', ''d'', ''e'']" by simp
  have v: "split_files 2 [''a'', ''b'', ''c'', ''d'', ''e''] 0 (replicate 2 [])
             = [[''a'', ''c'', ''e''], [''b'', ''d'']]"
    by code_simp
  note r = round_robin_partition[OF pos, of "[''a'', ''b'', ''c'', ''d'', ''e'']"]
  from r have m: "mset (concat (split_files 2 [''a'', ''b'', ''c'', ''d'', ''e''] 0 (replicate 2 [])))
          = mset [''a'', ''b'', ''c'', ''d'', ''e'']"
    by blast
  from r d have a: "\<forall>j<2. \<forall>k<2. j \<noteq> k \<longrightarrow>
           set (split_files 2 [''a'', ''b'', ''c'', ''d'', ''e''] 0 (replicate 2 []) ! j)
             \<inter> set (split_files 2 [''a'', ''b'', ''c'', ''d'', ''e''] 0 (replicate 2 []) ! k) = {}"
    by blast
  have "(0::nat) < 2" "(1::nat) < 2" "(0::nat) \<noteq> 1" by simp_all
  with a have i: "set (split_files 2 [''a'', ''b'', ''c'', ''d'', ''e''] 0 (replicate 2 []) ! 0)
       \<inter> set (split_files 2 [''a'', ''b'', ''c'', ''d'', ''e''] 0 (replicate 2 []) ! 1) = {}"
    by blast
  from pos v m i show ?thesis by blast
qed

subsection \<open>Sample rates when indexes are merged\<close>

lemma do_cmd_merge_step:
  assumes "cmd = ''merge'' \<or> cmd = ''newmerge''"
    and "tab st = Some A" and "HashTable_load f (disk st) = Inr B"
  shows "do_cmd ext cmd (f # rest, err) mt outdir ty skip sp st =
           (case merge_tables A B of
              Inl e \<Rightarrow> (st, Raised e)
            | Inr A' \<Rightarrow> do_cmd ext cmd (rest, err) mt outdir ty skip sp (st\<lparr>tab := Some A'\<rparr>))"
  using assms by (auto simp: do_cmd_def end_of_iteration_def split: sum.splits)

text \<open>
  C2 (as amended): in a merge or newmerge run, merging a loaded index B into the primary
  index A raises a consistency error (the assertion fails) whenever both define a sample
  rate and the two differ; when A defines none and B defines one, A adopts B's before the
  merge; when both define the same rate the merge goes ahead, whatever the other parameters
  of the two indexes are: no other mismatch is checked.
\<close>

theorem merge_sample_rate:
  "cmd = ''merge'' \<or> cmd = ''newmerge'' \<Longrightarrow> tab st = Some A \<Longrightarrow>
   HashTable_load f (disk st) = Inr B \<Longrightarrow>
     (\<forall>ra rb. params A ''samplerate'' = Some ra \<and> params B ''samplerate'' = Some rb \<and> ra \<noteq> rb \<longrightarrow>
        do_cmd ext cmd (f # rest, err) mt outdir ty skip sp st = (st, Raised AssertionError))
   \<and> (\<forall>rb. params A ''samplerate'' = None \<and> params B ''samplerate'' = Some rb \<longrightarrow>
        do_cmd ext cmd (f # rest, err) mt outdir ty skip sp st =
          do_cmd ext cmd (rest, err) mt outdir ty skip sp
            (st\<lparr>tab := Some (ht_merge (A\<lparr>params := (params A)(''samplerate'' \<mapsto> rb)\<rparr>) B)\<rparr>))
   \<and> (\<forall>rb. params A ''samplerate'' = Some rb \<and> params B ''samplerate'' = Some rb \<longrightarrow>
        do_cmd ext cmd (f # rest, err) mt outdir ty skip sp st =
          do_cmd ext cmd (rest, err) mt outdir ty skip sp (st\<lparr>tab := Some (ht_merge A B)\<rparr>))"
proof -
  assume a: "cmd = ''merge'' \<or> cmd = ''newmerge''" "tab st = Some A"
    "HashTable_load f (disk st) = Inr B"
  note step = do_cmd_merge_step[OF a, of ext rest err mt outdir ty skip sp]
  show ?thesis
    unfolding step by (auto simp: merge_tables_def dom_def)
qed

text \<open>
  When neither index defines a sample rate, A adopts nothing: reading B's rate raises a
  \<open>KeyError\<close> and nothing is merged.
\<close>

theorem merge_sample_rate_counterexample:
  "params table_a ''samplerate'' = None
   \<and> do_cmd sample_externals ''merge'' ([''b.db''], None) None ''.'' ''hashes'' False []
        (table_state table_a [(''b.db'', table_b)])
       = (table_state table_a [(''b.db'', table_b)], Raised (KeyError ''samplerate''))"
  by (simp add: do_cmd_def end_of_iteration_def HashTable_load_def table_state_def
        merge_tables_def table_a_def table_b_def)

theorem merge_sample_rate_witness:
  "do_cmd sample_externals ''merge'' ([''b.db''], None) None ''.'' ''hashes'' False []
       (table_state (table_a\<lparr>params := [''samplerate'' \<mapsto> 11025]\<rparr>)
          [(''b.db'', table_b\<lparr>params := [''samplerate'' \<mapsto> 22050]\<rparr>)])
     = (table_state (table_a\<lparr>params := [''samplerate'' \<mapsto> 11025]\<rparr>)
          [(''b.db'', table_b\<lparr>params := [''samplerate'' \<mapsto> 22050]\<rparr>)], Raised AssertionError)
   \<and> tab (fst (do_cmd sample_externals ''newmerge'' ([''b.db''], None) None ''.'' ''hashes'' False []
       (table_state table_a [(''b.db'', table_b\<lparr>params := [''samplerate'' \<mapsto> 22050]\<rparr>)])))
     = Some (ht_merge (table_a\<lparr>params := [''samplerate'' \<mapsto> 22050]\<rparr>)
               (table_b\<lparr>params := [''samplerate'' \<mapsto> 22050]\<rparr>))"
proof -
  let ?A1 = "table_a\<lparr>params := [''samplerate'' \<mapsto> 11025]\<rparr>"
  let ?B = "table_b\<lparr>params := [''samplerate'' \<mapsto> 22050]\<rparr>"
  have c1: "''merge'' = ''merge'' \<or> ''merge'' = ''newmerge''" by simp
  have c2: "''newmerge'' = ''merge'' \<or> ''newmerge'' = ''newmerge''" by simp
  have t1: "tab (table_state ?A1 [(''b.db'', ?B)]) = Some ?A1" by (simp add: table_state_def)
  have t2: "tab (table_state table_a [(''b.db'', ?B)]) = Some table_a" by (simp add: table_state_def)
  have l1: "HashTable_load ''b.db'' (disk (table_state ?A1 [(''b.db'', ?B)])) = Inr ?B"
    by (simp add: HashTable_load_def table_state_def table_b_def)
  have l2: "HashTable_load ''b.db'' (disk (table_state table_a [(''b.db'', ?B)])) = Inr ?B"
    by (simp add: HashTable_load_def table_state_def table_b_def)
  have p1: "params ?A1 ''samplerate'' = Some 11025 \<and> params ?B ''samplerate'' = Some 22050
              \<and> (11025::int) \<noteq> 22050" by simp
  have p2: "params table_a ''samplerate'' = None \<and> params ?B ''samplerate'' = Some 22050"
    by (simp add: table_a_def)
  from merge_sample_rate[OF c1 t1 l1, of sample_externals "[]" None None "''.''" "''hashes''" False "[]"] p1
  have r1: "do_cmd sample_externals ''merge'' ([''b.db''], None) None ''.'' ''hashes'' False []
       (table_state ?A1 [(''b.db'', ?B)]) = (table_state ?A1 [(''b.db'', ?B)], Raised AssertionError)"
    by blast
  from merge_sample_rate[OF c2 t2 l2, of sample_externals "[]" None None "''.''" "''hashes''" False "[]"] p2
  have r2: "do_cmd sample_externals ''newmerge'' ([''b.db''], None) None ''.'' ''hashes'' False []
       (table_state table_a [(''b.db'', ?B)]) =
          do_cmd sample_externals ''newmerge'' ([], None) None ''.'' ''hashes'' False []
            ((table_state table_a [(''b.db'', ?B)])
               \<lparr>tab := Some (ht_merge (table_a\<lparr>params := (params table_a)(''samplerate'' \<mapsto> 22050)\<rparr>) ?B)\<rparr>)"
    by blast
  have pa: "params table_a = Map.empty" by (simp add: table_a_def)
  show ?thesis
    unfolding r1 r2 by (simp add: do_cmd_def end_of_iteration_def pa)
qed

subsection \<open>The hashes-per-second report of new and add\<close>

lemma wavfile2hashes_total:
  "wavfile2hashes ext an f = (r, an') \<Longrightarrow> \<forall>f d p h. audio ext f = Some (d, p, h) \<longrightarrow> 0 \<le> d \<Longrightarrow>
     soundfiletotaldur an \<le> soundfiletotaldur an'"
proof (cases "audio ext f")
  case None
  assume "wavfile2hashes ext an f = (r, an')"
  with None show ?thesis by (auto simp: wavfile2hashes_def split: if_splits)
next
  case (Some v)
  assume w: "wavfile2hashes ext an f = (r, an')"
    and nn: "\<forall>f d p h. audio ext f = Some (d, p, h) \<longrightarrow> 0 \<le> d"
  obtain d p h where v: "v = (d, p, h)" by (cases v)
  from nn Some v have "0 \<le> d" by blast
  with w Some v show ?thesis by (auto simp: wavfile2hashes_def)
qed

lemma ingest_total:
  "ingest ext an ht f = (r, an', ht') \<Longrightarrow> \<forall>f d p h. audio ext f = Some (d, p, h) \<longrightarrow> 0 \<le> d \<Longrightarrow>
     soundfiletotaldur an \<le> soundfiletotaldur an'"
proof -
  assume i: "ingest ext an ht f = (r, an', ht')"
    and nn: "\<forall>f d p h. audio ext f = Some (d, p, h) \<longrightarrow> 0 \<le> d"
  obtain r0 an0 where w: "wavfile2hashes ext an f = (r0, an0)"
    by (cases "wavfile2hashes ext an f") auto
  from i w have "an' = an0"
    by (auto simp: ingest_def split: sum.splits option.splits)
  with wavfile2hashes_total[OF w nn] show ?thesis by simp
qed

lemma ingest_loop_total:
  "ingest_loop ext fl tot ix st = (r, st') \<Longrightarrow> anl st = Some an \<Longrightarrow>
   \<forall>f d p h. audio ext f = Some (d, p, h) \<longrightarrow> 0 \<le> d \<Longrightarrow>
     \<exists>an'. anl st' = Some an' \<and> soundfiletotaldur an \<le> soundfiletotaldur an'"
proof (induction fl arbitrary: tot ix st an)
  case Nil
  then show ?case by auto
next
  case (Cons f fl)
  obtain r1 an1 ht1 where ing: "ingest ext an (tab st) f = (r1, an1, ht1)"
    by (cases "ingest ext an (tab st) f") auto
  have mono: "soundfiletotaldur an \<le> soundfiletotaldur an1"
    using ingest_total[OF ing Cons.prems(3)] .
  show ?case
  proof (cases r1)
    case (Inl e)
    with Cons.prems ing mono show ?thesis by (auto simp: Let_def)
  next
    case (Inr v)
    obtain dur nhash where v: "v = (dur, nhash)" by (cases v)
    let ?st = "st\<lparr>trace_log := trace_log st @ [[Ingesting ix f]], tab := ht1, anl := Some an1\<rparr>"
    from Cons.prems(1,2) ing Inr v
    have "ingest_loop ext fl (tot + nhash) (ix + 1) ?st = (r, st')"
      by (simp add: Let_def)
    from Cons.IH[OF this _ Cons.prems(3), of an1]
    obtain an' where "anl st' = Some an'" "soundfiletotaldur an1 \<le> soundfiletotaldur an'"
      by auto
    with mono show ?thesis by auto
  qed
qed

lemma open_table_anl: "open_table ext opts st = (st1, oc) \<Longrightarrow> anl st1 = anl st"
  by (auto simp: open_table_def Let_def split: if_splits option.splits sum.splits)

lemma filename_iterator_no_files: "filename_list_iterator fs [] wavdir wavext listflag = ([], None)"
  by (simp add: filename_list_iterator_def)

lemma do_cmd_new_add:
  "cmd = ''new'' \<or> cmd = ''add'' \<Longrightarrow>
     do_cmd ext cmd it mt outdir ty skip sp st =
       (case ingest_loop ext (fst it) 0 0 st of
           (Inl e, st1) \<Rightarrow> (st1, Raised e)
         | (Inr tothashes, st1) \<Rightarrow>
             (case snd it of
                Some e \<Rightarrow> (st1, Raised e)
              | None \<Rightarrow>
                  (case anl st1 of
                     None \<Rightarrow> (st1, Raised AttributeError)
                   | Some an \<Rightarrow>
                       if soundfiletotaldur an = 0 then (st1, Raised ZeroDivisionError)
                       else (st1\<lparr>trace_log := trace_log st1
                                    @ [[Added tothashes (real tothashes / soundfiletotaldur an)]]\<rparr>,
                             Done))))"
  by (erule disjE) (simp_all add: do_cmd_def)

text \<open>
  C10: in the single-process path of new and add, the report after the ingest loop divides
  the number of stored hashes by the analyzer's cumulative processed duration without any
  test. With a cumulative duration of zero and no file the command raises a division by
  zero; whenever the command ends without error the cumulative duration is not zero, and
  positive when no duration is negative; and a run of \<open>main\<close> for new or add without
  files (a fresh analyzer has processed nothing) ends with that error.
\<close>

theorem hashes_per_second_division:
  "cmd = ''new'' \<or> cmd = ''add'' \<Longrightarrow> anl st = Some an \<Longrightarrow>
     (soundfiletotaldur an = 0 \<longrightarrow>
        do_cmd ext cmd ([], None) mt outdir ty skip sp st = (st, Raised ZeroDivisionError))
   \<and> (\<forall>st'. do_cmd ext cmd it mt outdir ty skip sp st = (st', Done) \<longrightarrow>
          (\<exists>an'. anl st' = Some an' \<and> soundfiletotaldur an' \<noteq> 0))
   \<and> (\<forall>st'. (\<forall>f d p h. audio ext f = Some (d, p, h) \<longrightarrow> 0 \<le> d) \<and> 0 \<le> soundfiletotaldur an
            \<and> do_cmd ext cmd it mt outdir ty skip sp st = (st', Done) \<longrightarrow>
          (\<exists>an'. anl st' = Some an' \<and> 0 < soundfiletotaldur an'))
   \<and> (o_cmd opts = cmd \<and> o_file opts = [] \<and> o_ncores opts \<le> 1
        \<and> open_table ext opts (initial_state opts fs0) = (st1, Done) \<longrightarrow>
          main ext opts fs0 = (st1, Raised ZeroDivisionError))"
proof (intro conjI allI impI)
  assume c: "cmd = ''new'' \<or> cmd = ''add''" and a: "anl st = Some an"
  show "do_cmd ext cmd ([], None) mt outdir ty skip sp st = (st, Raised ZeroDivisionError)"
    if "soundfiletotaldur an = 0"
    using a that by (simp add: do_cmd_new_add[OF c])
  show nz: "\<exists>an'. anl st' = Some an' \<and> soundfiletotaldur an' \<noteq> 0"
    if "do_cmd ext cmd it mt outdir ty skip sp st = (st', Done)" for st'
    using that unfolding do_cmd_new_add[OF c]
    by (auto split: prod.splits sum.splits option.splits if_splits)
  show "\<exists>an'. anl st' = Some an' \<and> 0 < soundfiletotaldur an'"
    if h: "(\<forall>f d p h. audio ext f = Some (d, p, h) \<longrightarrow> 0 \<le> d) \<and> 0 \<le> soundfiletotaldur an
         \<and> do_cmd ext cmd it mt outdir ty skip sp st = (st', Done)" for st'
  proof -
    from h have d: "do_cmd ext cmd it mt outdir ty skip sp st = (st', Done)" by simp
    obtain r st1 where l: "ingest_loop ext (fst it) 0 0 st = (r, st1)"
      by (cases "ingest_loop ext (fst it) 0 0 st") auto
    from ingest_loop_total[OF l a] h obtain an1 where
      an1: "anl st1 = Some an1" "soundfiletotaldur an \<le> soundfiletotaldur an1" by blast
    from d l an1 have "anl st' = Some an1 \<and> soundfiletotaldur an1 \<noteq> 0"
      unfolding do_cmd_new_add[OF c]
      by (auto split: sum.splits option.splits if_splits)
    with an1 h show ?thesis by auto
  qed
  show "main ext opts fs0 = (st1, Raised ZeroDivisionError)"
    if h: "o_cmd opts = cmd \<and> o_file opts = [] \<and> o_ncores opts \<le> 1
        \<and> open_table ext opts (initial_state opts fs0) = (st1, Done)"
  proof -
    from h c have ch: "o_cmd opts \<in> set choices" by (auto simp: choices_def)
    from h have ot: "open_table ext opts (initial_state opts fs0) = (st1, Done)" by simp
    from h have cc: "o_cmd opts = ''new'' \<or> o_cmd opts = ''add''" using c by simp
    from open_table_anl[OF ot] cc
    have an1: "anl st1 = Some (setup_analyzer (o_density opts) (o_cmd opts = ''match'')
                          (o_pks_per_frame opts) (o_fanout opts) (o_freq_sd opts) (o_shifts opts)
                          (o_samplerate opts) (o_continue_on_error opts))"
      by (auto simp: initial_state_def)
    have z: "soundfiletotaldur (setup_analyzer a b c' d e f g i) = 0" for a b c' d e f g i
      by (simp add: setup_analyzer_def Analyzer_new_def Let_def)
    from h have se: "select_executor (o_cmd opts) (o_ncores opts) = SingleProcess"
      by (simp add: select_executor_def)
    from h have f0: "o_file opts = []" by simp
    have "run_command ext opts fs0 = (st1, Raised ZeroDivisionError)"
      using f0 an1 z
      by (simp add: run_command_def ch ot se filename_iterator_no_files do_cmd_new_add[OF cc])
    then show ?thesis by (simp add: main_def)
  qed
qed



lemma open_table_new_sample:
  "open_table sample_externals new_options (initial_state new_options empty_disk) =
     (\<lparr>disk = empty_disk, trace_log = [],
       tab = Some ((HashTable_new sample_externals 20 100 16384)\<lparr>params := [''samplerate'' \<mapsto> 11025]\<rparr>),
       anl = Some (setup_analyzer 20 False 5 3 30 0 11025 False),
       saves = [], events = []\<rparr>, Done)"
  by (simp add: open_table_def new_options_def default_options_def initial_state_def
        sample_externals_def empty_disk_def path_split_def ensure_dir_def new_maxtime_def
        shift_left_one_def HashTable_new_def setup_analyzer_def Analyzer_new_def)

theorem hashes_per_second_division_witness:
  "main sample_externals new_options empty_disk =
     (\<lparr>disk = empty_disk, trace_log = [],
       tab = Some ((HashTable_new sample_externals 20 100 16384)\<lparr>params := [''samplerate'' \<mapsto> 11025]\<rparr>),
       anl = Some (setup_analyzer 20 False 5 3 30 0 11025 False),
       saves = [], events = []\<rparr>, Raised ZeroDivisionError)"
proof -
  have c: "''new'' = ''new'' \<or> ''new'' = ''add''" by simp
  have a: "anl (initial_state new_options empty_disk) = Some (setup_analyzer 20 False 5 3 30 0 11025 False)"
    by (simp add: initial_state_def new_options_def default_options_def)
  have o: "o_cmd new_options = ''new'' \<and> o_file new_options = [] \<and> o_ncores new_options \<le> 1
        \<and> open_table sample_externals new_options (initial_state new_options empty_disk) =
     (\<lparr>disk = empty_disk, trace_log = [],
       tab = Some ((HashTable_new sample_externals 20 100 16384)\<lparr>params := [''samplerate'' \<mapsto> 11025]\<rparr>),
       anl = Some (setup_analyzer 20 False 5 3 30 0 11025 False),
       saves = [], events = []\<rparr>, Done)"
    using open_table_new_sample by (simp add: new_options_def default_options_def)
  let ?st1 = "\<lparr>disk = empty_disk, trace_log = [],
       tab = Some ((HashTable_new sample_externals 20 100 16384)\<lparr>params := [''samplerate'' \<mapsto> 11025]\<rparr>),
       anl = Some (setup_analyzer 20 False 5 3 30 0 11025 False),
       saves = [], events = []\<rparr>"
  note t = hashes_per_second_division[OF c a, of sample_externals None "''.''" "''hashes''" False "[]"
      "([], None)" new_options empty_disk ?st1]
  from t[THEN conjunct2, THEN conjunct2, THEN conjunct2, THEN mp, OF o] show ?thesis .
qed

subsection \<open>Precompute with skip-existing\<close>

lemma precompute_skips:
  "isfile fs (output_name ext filename precompdir precompext hnp sp) \<Longrightarrow>
     file_precompute_peaks_or_hashes ext analyzer filename precompdir precompext hnp True sp fs =
       (Inr [skip_message (output_name ext filename precompdir precompext hnp sp)], analyzer, fs)"
  by (simp add: file_precompute_peaks_or_hashes_def skip_message_def)

lemma precomp_save_isfile: "precomp_save opfname output fs = Inr fs' \<Longrightarrow> isfile fs' opfname"
  by (auto simp: precomp_save_def isfile_def Let_def split: if_splits)

lemma wrote_isfile:
  assumes "file_precompute_peaks_or_hashes ext analyzer filename precompdir precompext hnp skip0 sp fs
             = (Inr [Wrote opf n kind d], an1, fs1)"
  shows "opf = output_name ext filename precompdir precompext hnp sp \<and> isfile fs1 opf"
proof (cases analyzer)
  case None
  with assms show ?thesis
    by (auto simp: file_precompute_peaks_or_hashes_def Let_def split: if_splits)
next
  case (Some an)
  obtain r an' where w: "(if hnp then wavfile2hashes ext an filename
                      else wavfile2peaks ext an filename) = (r, an')"
    by (cases "if hnp then wavfile2hashes ext an filename else wavfile2peaks ext an filename") auto
  show ?thesis
  proof (cases "skip0 \<and> isfile fs (output_name ext filename precompdir precompext hnp sp)")
    case True
    with assms show ?thesis
      by (simp add: file_precompute_peaks_or_hashes_def Let_def)
  next
    case False
    with assms Some w show ?thesis
      by (auto simp: file_precompute_peaks_or_hashes_def Let_def
               split: sum.splits if_splits dest: precomp_save_isfile)
  qed
qed

lemma precompute_loop_all_skipped:
  "\<forall>f\<in>set fl. isfile (disk st) (output_name ext f outdir None (ty = ''hashes'') sp) \<Longrightarrow>
     precompute_loop ext outdir ty True sp fl st =
       (st\<lparr>trace_log := trace_log st
             @ map (\<lambda>f. [skip_message (output_name ext f outdir None (ty = ''hashes'') sp)]) fl\<rparr>,
        Done)"
proof (induction fl arbitrary: st)
  case Nil
  then show ?case by simp
next
  case (Cons f fl)
  let ?st = "st\<lparr>trace_log := trace_log st
                 @ [[skip_message (output_name ext f outdir None (ty = ''hashes'') sp)]]\<rparr>"
  from Cons.prems
  have step: "precompute_loop ext outdir ty True sp (f # fl) st
                = precompute_loop ext outdir ty True sp fl ?st"
    by (simp add: file_precompute_def precompute_skips)
  from Cons.prems
  have "\<forall>g\<in>set fl. isfile (disk ?st) (output_name ext g outdir None (ty = ''hashes'') sp)"
    by simp
  from Cons.IH[OF this] step show ?case by simp
qed

text \<open>
  C8: when the output artifact of a file already exists, precompute with skip-existing
  returns the single message that the file exists and is skipped, and leaves the analyzer
  and the file system as they were: no analysis, no write. So a second precompute of a file
  whose first precompute wrote its artifact analyses nothing and leaves the artifact
  unchanged, and a precompute command over files whose artifacts all exist only logs one
  such message per file, in order.
\<close>

theorem skip_existing_idempotent:
  "(isfile fs (output_name ext filename precompdir precompext hnp sp) \<longrightarrow>
      file_precompute_peaks_or_hashes ext analyzer filename precompdir precompext hnp True sp fs =
        (Inr [skip_message (output_name ext filename precompdir precompext hnp sp)], analyzer, fs))
   \<and> (\<forall>skip0 opf n kind d an1 fs1.
        file_precompute_peaks_or_hashes ext analyzer filename precompdir precompext hnp skip0 sp fs
          = (Inr [Wrote opf n kind d], an1, fs1) \<longrightarrow>
        file_precompute_peaks_or_hashes ext an1 filename precompdir precompext hnp True sp fs1
          = (Inr [skip_message opf], an1, fs1))
   \<and> ((\<forall>f\<in>set fl. isfile (disk st) (output_name ext f outdir None (ty = ''hashes'') sp)) \<longrightarrow>
        do_cmd ext ''precompute'' (fl, None) mt outdir ty True sp st =
          (st\<lparr>trace_log := trace_log st
                @ map (\<lambda>f. [skip_message (output_name ext f outdir None (ty = ''hashes'') sp)]) fl\<rparr>,
           Done))"
proof (intro conjI allI impI)
  show "file_precompute_peaks_or_hashes ext analyzer filename precompdir precompext hnp True sp fs =
        (Inr [skip_message (output_name ext filename precompdir precompext hnp sp)], analyzer, fs)"
    if "isfile fs (output_name ext filename precompdir precompext hnp sp)"
    using that by (rule precompute_skips)
  show "file_precompute_peaks_or_hashes ext an1 filename precompdir precompext hnp True sp fs1
          = (Inr [skip_message opf], an1, fs1)"
    if "file_precompute_peaks_or_hashes ext analyzer filename precompdir precompext hnp skip0 sp fs
          = (Inr [Wrote opf n kind d], an1, fs1)" for skip0 opf n kind d an1 fs1
  proof -
    from wrote_isfile[OF that]
    have o: "opf = output_name ext filename precompdir precompext hnp sp"
      and i: "isfile fs1 (output_name ext filename precompdir precompext hnp sp)" by auto
    from i show ?thesis unfolding o by (rule precompute_skips)
  qed
  show "do_cmd ext ''precompute'' (fl, None) mt outdir ty True sp st =
          (st\<lparr>trace_log := trace_log st
                @ map (\<lambda>f. [skip_message (output_name ext f outdir None (ty = ''hashes'') sp)]) fl\<rparr>,
           Done)"
    if "\<forall>f\<in>set fl. isfile (disk st) (output_name ext f outdir None (ty = ''hashes'') sp)"
    using precompute_loop_all_skipped[OF that]
    by (simp add: do_cmd_def end_of_iteration_def)
qed

lemma output_name_sample:
  "output_name sample_externals ''a.wav'' ''.'' None True [] = ''./a.afpt''"
  by (simp add: output_name_def splitext_def path_join_def sample_externals_def)

lemma first_run_sample:
  "file_precompute_peaks_or_hashes sample_externals (Some sample_analyzer) ''a.wav'' ''.'' None
       True True [] disk_with_dot =
     (Inr [Wrote ''./a.afpt'' 2 ''hashes'' 3],
      Some (sample_analyzer\<lparr>soundfiledur := 3, soundfiletotaldur := 3, soundfilecount := 1\<rparr>),
      disk_with_dot\<lparr>files := [''./a.afpt'' \<mapsto> Precomp [(1, 5), (2, 7)]]\<rparr>)"
  unfolding file_precompute_peaks_or_hashes_def output_name_sample
  by (simp add: isfile_def disk_with_dot_def wavfile2hashes_def sample_externals_def
        ensure_dir_def path_split_def path_exists_def precomp_save_def sample_analyzer_def
        setup_analyzer_def Analyzer_new_def Let_def)

theorem skip_existing_idempotent_witness:
  "file_precompute_peaks_or_hashes sample_externals (Some sample_analyzer) ''a.wav'' ''.'' None
       True True [] disk_with_dot =
     (Inr [Wrote ''./a.afpt'' 2 ''hashes'' 3],
      Some (sample_analyzer\<lparr>soundfiledur := 3, soundfiletotaldur := 3, soundfilecount := 1\<rparr>),
      disk_with_dot\<lparr>files := [''./a.afpt'' \<mapsto> Precomp [(1, 5), (2, 7)]]\<rparr>)
   \<and> file_precompute_peaks_or_hashes sample_externals
       (Some (sample_analyzer\<lparr>soundfiledur := 3, soundfiletotaldur := 3, soundfilecount := 1\<rparr>))
       ''a.wav'' ''.'' None True True []
       (disk_with_dot\<lparr>files := [''./a.afpt'' \<mapsto> Precomp [(1, 5), (2, 7)]]\<rparr>) =
     (Inr [skip_message ''./a.afpt''],
      Some (sample_analyzer\<lparr>soundfiledur := 3, soundfiletotaldur := 3, soundfilecount := 1\<rparr>),
      disk_with_dot\<lparr>files := [''./a.afpt'' \<mapsto> Precomp [(1, 5), (2, 7)]]\<rparr>)"
proof -
  note t = skip_existing_idempotent[of disk_with_dot sample_externals "''a.wav''" "''.''" None True "[]"
      "Some sample_analyzer"]
  from t[THEN conjunct2, THEN conjunct1, rule_format, OF first_run_sample] first_run_sample
  show ?thesis by (rule_tac conjI)
qed

subsection \<open>The build path: workers, pipes and the sequential merge\<close>

lemma wavfile2hashes_ok:
  "fail_on_error an \<longrightarrow> audio ext f \<noteq> None \<Longrightarrow>
     \<exists>an'. wavfile2hashes ext an f = (Inr (hashes_of ext f), an')
           \<and> fail_on_error an' = fail_on_error an"
  by (auto simp: wavfile2hashes_def hashes_of_def split: option.splits)

lemma store_files_ok:
  "fail_on_error an \<longrightarrow> (\<forall>f\<in>set fl. audio ext f \<noteq> None) \<Longrightarrow>
     store_files ext (Some an) fl ht =
       Inr (ht\<lparr>blocks := blocks ht @ map (\<lambda>f. (f, hashes_of ext f)) fl,
               dirty := (dirty ht \<or> fl \<noteq> [])\<rparr>)"
proof (induction fl arbitrary: an ht)
  case Nil
  then show ?case by simp
next
  case (Cons f fl)
  from Cons.prems have "fail_on_error an \<longrightarrow> audio ext f \<noteq> None" by simp
  from wavfile2hashes_ok[OF this] obtain an' where
    w: "wavfile2hashes ext an f = (Inr (hashes_of ext f), an')"
    and fe: "fail_on_error an' = fail_on_error an" by blast
  from Cons.prems fe have "fail_on_error an' \<longrightarrow> (\<forall>g\<in>set fl. audio ext g \<noteq> None)" by simp
  from Cons.IH[OF this] w show ?case by (simp add: ht_store_def)
qed

lemma make_ht_from_list_ok:
  "fail_on_error an \<longrightarrow> (\<forall>f\<in>set fl. audio ext f \<noteq> None) \<Longrightarrow>
     make_ht_from_list ext (Some an) fl (hashbits ht) (depth ht) (2 ^ nat (maxtimebits ht))
       = Inr (partial_index ext ht fl)"
  by (simp add: make_ht_from_list_def store_files_ok partial_index_def HashTable_new_def)

lemma deliver_lookup:
  "deliver sent sched pipes i =
     (if i \<in> set sched then (case sent i of Inl e \<Rightarrow> pipes i | Inr h \<Rightarrow> Some h) else pipes i)"
  by (induction sched arbitrary: pipes) (auto split: sum.splits)

lemma gather_all:
  "\<forall>c\<in>set cores. pipes c = Some (part c) \<Longrightarrow> tab st = Some ht \<Longrightarrow>
     gather pipes cores st =
       (st\<lparr>trace_log := trace_log st
             @ map (\<lambda>c. [TableInfo c (length (names (part c))) (sum_list (counts (part c)))]) cores,
           tab := Some (foldl ht_merge ht (map part cores)),
           events := events st @ concat (map (\<lambda>c. [Recv c, Merge c, Join c]) cores)\<rparr>, Done)"
proof (induction cores arbitrary: st ht)
  case Nil
  then show ?case by simp
next
  case (Cons c cores)
  let ?st = "st\<lparr>trace_log := trace_log st
                  @ [[TableInfo c (length (names (part c))) (sum_list (counts (part c)))]],
                tab := Some (ht_merge ht (part c)),
                events := events st @ [Recv c, Merge c, Join c]\<rparr>"
  from Cons.prems have step: "gather pipes (c # cores) st = gather pipes cores ?st"
    by (simp add: Let_def)
  from Cons.prems have "\<forall>c\<in>set cores. pipes c = Some (part c)" by simp
  from Cons.IH[OF this, of ?st "ht_merge ht (part c)"] step
  show ?case by simp
qed

lemma split_files_subset:
  assumes "0 < n" "k < n"
  shows "set (split_files n fl 0 (replicate n []) ! k) \<subseteq> set fl"
proof -
  have "mset (concat (split_files n fl 0 (replicate n []))) = mset fl"
    using assms by (simp add: mset_concat_split_files)
  then have "set (concat (split_files n fl 0 (replicate n []))) = set fl"
    by (metis set_mset_mset)
  moreover have "split_files n fl 0 (replicate n []) ! k \<in> set (split_files n fl 0 (replicate n []))"
    using assms by (simp add: split_files_length)
  ultimately show ?thesis by auto
qed

lemma multiproc_add_result:
  assumes "0 < n" and "tab st = Some ht" and "0 \<le> maxtimebits ht" and "anl st = Some an"
    and "fail_on_error an \<longrightarrow> (\<forall>f\<in>set fl. audio ext f \<noteq> None)"
    and "{0..<n} \<subseteq> set sched"
  shows "multiproc_add ext sched (fl, None) n st =
     (st\<lparr>trace_log := trace_log st
           @ map (\<lambda>c. [TableInfo c
                        (length (names (partial_index ext ht (split_files n fl 0 (replicate n []) ! c))))
                        (sum_list (counts (partial_index ext ht (split_files n fl 0 (replicate n []) ! c))))])
               [0..<n],
         tab := Some (foldl ht_merge ht
                  (map (\<lambda>c. partial_index ext ht (split_files n fl 0 (replicate n []) ! c)) [0..<n])),
         events := events st @ map Start [0..<n]
             @ concat (map (\<lambda>c. [Recv c, Merge c, Join c]) [0..<n])\<rparr>,
      Done)"
proof -
  let ?parts = "split_files n fl 0 (replicate n [])"
  let ?part = "\<lambda>c. partial_index ext ht (?parts ! c)"
  let ?sent = "\<lambda>ix. make_ht_from_list ext (anl st) (?parts ! ix) (hashbits ht) (depth ht)
                       (2 ^ nat (maxtimebits ht))"
  let ?pipes = "deliver ?sent (filter (\<lambda>ix. ix < n) sched) Map.empty"
  let ?st1 = "st\<lparr>events := events st @ map Start [0..<n]\<rparr>"
  have sent: "?sent c = Inr (?part c)" if "c < n" for c
  proof -
    from split_files_subset[OF assms(1) that, of fl] assms(5)
    have "fail_on_error an \<longrightarrow> (\<forall>f\<in>set (?parts ! c). audio ext f \<noteq> None)" by blast
    from make_ht_from_list_ok[OF this, of ht] assms(4) show ?thesis by simp
  qed
  have pipes: "\<forall>c\<in>set [0..<n]. ?pipes c = Some (?part c)"
  proof
    fix c assume "c \<in> set [0..<n]"
    then have c: "c < n" by simp
    with assms(6) have "c \<in> set (filter (\<lambda>ix. ix < n) sched)" by auto
    with sent[OF c] show "?pipes c = Some (?part c)" by (simp add: deliver_lookup)
  qed
  have t1: "tab ?st1 = Some ht" using assms(2) by simp
  have "multiproc_add ext sched (fl, None) n st = gather ?pipes [0..<n] ?st1"
    using assms(1,2,3) by (simp add: multiproc_add_def shift_left_one_def Let_def)
  also note gather_all[OF pipes t1]
  finally show ?thesis by simp
qed

text \<open>
  C7: in the multi-process build path, whatever the order in which the workers finish
  (every worker finishing, none raising), the orchestrator starts the workers in partition
  order, then for each partition in that same order receives the worker's partial index,
  merges it into the primary index and joins the worker, one after the other; every worker
  has been joined when the call returns; the primary index is the left fold of the merge
  over the partial indexes in partition order; and the result does not depend on the order
  in which the workers finish, so runs over the same input and partition count give the
  same index.
\<close>

theorem gather_in_launch_order:
  "0 < n \<Longrightarrow> tab st = Some ht \<Longrightarrow> 0 \<le> maxtimebits ht \<Longrightarrow> anl st = Some an \<Longrightarrow>
   fail_on_error an \<longrightarrow> (\<forall>f\<in>set fl. audio ext f \<noteq> None) \<Longrightarrow> {0..<n} \<subseteq> set sched \<Longrightarrow>
     snd (multiproc_add ext sched (fl, None) n st) = Done
   \<and> events (fst (multiproc_add ext sched (fl, None) n st)) =
       events st @ map Start [0..<n] @ concat (map (\<lambda>c. [Recv c, Merge c, Join c]) [0..<n])
   \<and> tab (fst (multiproc_add ext sched (fl, None) n st)) =
       Some (foldl ht_merge ht
               (map (\<lambda>c. partial_index ext ht (split_files n fl 0 (replicate n []) ! c)) [0..<n]))
   \<and> (\<forall>sched'. {0..<n} \<subseteq> set sched' \<longrightarrow>
         multiproc_add ext sched' (fl, None) n st = multiproc_add ext sched (fl, None) n st)"
proof -
  assume a: "0 < n" "tab st = Some ht" "0 \<le> maxtimebits ht" "anl st = Some an"
    "fail_on_error an \<longrightarrow> (\<forall>f\<in>set fl. audio ext f \<noteq> None)" and s: "{0..<n} \<subseteq> set sched"
  note r = multiproc_add_result[OF a s]
  have "multiproc_add ext sched' (fl, None) n st = multiproc_add ext sched (fl, None) n st"
    if "{0..<n} \<subseteq> set sched'" for sched'
    using multiproc_add_result[OF a that] r by simp
  then show ?thesis unfolding r by simp
qed

lemma build_state_facts:
  "tab build_state = Some build_table" "0 \<le> maxtimebits build_table"
  "anl build_state = Some sample_analyzer"
  "fail_on_error sample_analyzer \<longrightarrow>
     (\<forall>f\<in>set [''a.wav'', ''b.wav'', ''silence.wav'']. audio sample_externals f \<noteq> None)"
  by (simp_all add: build_state_def build_table_def HashTable_new_def sample_externals_def)

theorem gather_in_launch_order_witness:
  "snd (multiproc_add sample_externals [1, 0] ([''a.wav'', ''b.wav'', ''silence.wav''], None) 2
          build_state) = Done
   \<and> events (fst (multiproc_add sample_externals [1, 0]
                     ([''a.wav'', ''b.wav'', ''silence.wav''], None) 2 build_state))
       = [Start 0, Start 1, Recv 0, Merge 0, Join 0, Recv 1, Merge 1, Join 1]
   \<and> multiproc_add sample_externals [0, 1] ([''a.wav'', ''b.wav'', ''silence.wav''], None) 2
        build_state
       = multiproc_add sample_externals [1, 0] ([''a.wav'', ''b.wav'', ''silence.wav''], None) 2
           build_state"
proof -
  have n: "(0::nat) < 2" by simp
  have s: "{0..<2} \<subseteq> set [1, 0::nat]" by auto
  have s': "{0..<2} \<subseteq> set [0, 1::nat]" by auto
  note t = gather_in_launch_order[OF n build_state_facts s]
  have e: "events build_state @ map Start [0..<2]
             @ concat (map (\<lambda>c. [Recv c, Merge c, Join c]) [0..<2])
           = [Start 0, Start 1, Recv 0, Merge 0, Join 0, Recv 1, Merge 1, Join 1]"
    by (simp add: build_state_def numeral_2_eq_2)
  note c1 = t[THEN conjunct1]
  note c2 = t[THEN conjunct2, THEN conjunct1, unfolded e]
  note c4 = t[THEN conjunct2, THEN conjunct2, THEN conjunct2, rule_format, OF s']
  from c1 c2 c4 show ?thesis by (intro conjI)
qed

subsection \<open>The build path against the single-process ingest\<close>

lemma blocks_foldl_merge:
  "blocks (foldl ht_merge ht hs) = blocks ht @ concat (map blocks hs)"
  by (induction hs arbitrary: ht) (simp_all add: ht_merge_def)

lemma blocks_partial_index:
  "blocks (partial_index ext ht fl) = map (\<lambda>f. (f, hashes_of ext f)) fl"
  by (simp add: partial_index_def)

lemma concat_map_nth:
  "length parts = n \<Longrightarrow> concat (map (\<lambda>c. map g (parts ! c)) [0..<n]) = map g (concat parts)"
proof -
  assume l: "length parts = n"
  have p: "map ((!) parts) [0..<n] = parts" unfolding l[symmetric] by (rule map_nth)
  have "map (\<lambda>c. map g (parts ! c)) [0..<n] = map (map g) (map ((!) parts) [0..<n])"
    by (simp add: comp_def)
  then have "map (\<lambda>c. map g (parts ! c)) [0..<n] = map (map g) parts"
    by (simp only: p)
  then show ?thesis by (simp only: map_concat)
qed

lemma ingest_ok:
  "fail_on_error an \<longrightarrow> audio ext f \<noteq> None \<Longrightarrow>
     \<exists>an'. ingest ext an (Some ht) f =
             (Inr (soundfiledur an', length (hashes_of ext f)), an',
              Some (ht_store ht f (hashes_of ext f)))
           \<and> fail_on_error an' = fail_on_error an"
proof -
  assume "fail_on_error an \<longrightarrow> audio ext f \<noteq> None"
  from wavfile2hashes_ok[OF this] obtain an' where
    "wavfile2hashes ext an f = (Inr (hashes_of ext f), an')" "fail_on_error an' = fail_on_error an"
    by blast
  then show ?thesis by (auto simp: ingest_def)
qed

lemma ingest_loop_ok:
  "tab st = Some ht \<Longrightarrow> anl st = Some an \<Longrightarrow>
   fail_on_error an \<longrightarrow> (\<forall>f\<in>set fl. audio ext f \<noteq> None) \<Longrightarrow>
     \<exists>st' ht'. ingest_loop ext fl tot ix st
                  = (Inr (tot + sum_list (map (\<lambda>f. length (hashes_of ext f)) fl)), st')
              \<and> tab st' = Some ht'
              \<and> blocks ht' = blocks ht @ map (\<lambda>f. (f, hashes_of ext f)) fl"
proof (induction fl arbitrary: st ht an tot ix)
  case Nil
  then show ?case by simp
next
  case (Cons f fl)
  from Cons.prems have "fail_on_error an \<longrightarrow> audio ext f \<noteq> None" by simp
  from ingest_ok[OF this, of ht] obtain an' where
    i: "ingest ext an (Some ht) f =
          (Inr (soundfiledur an', length (hashes_of ext f)), an',
           Some (ht_store ht f (hashes_of ext f)))"
    and fe: "fail_on_error an' = fail_on_error an" by blast
  let ?st = "st\<lparr>trace_log := trace_log st @ [[Ingesting ix f]],
                tab := Some (ht_store ht f (hashes_of ext f)), anl := Some an'\<rparr>"
  from Cons.prems i
  have step: "ingest_loop ext (f # fl) tot ix st
                = ingest_loop ext fl (tot + length (hashes_of ext f)) (ix + 1) ?st"
    by (simp add: Let_def)
  have t: "tab ?st = Some (ht_store ht f (hashes_of ext f))" and a: "anl ?st = Some an'"
    by simp_all
  from Cons.prems fe have "fail_on_error an' \<longrightarrow> (\<forall>g\<in>set fl. audio ext g \<noteq> None)" by simp
  from Cons.IH[OF t a this, of "tot + length (hashes_of ext f)" "ix + 1"] step
  show ?case by (auto simp: ht_store_def)
qed

lemma sum_filter_mset:
  "sum_list (map h (filter P xs)) = sum_mset (image_mset h (filter_mset P (mset xs)))"
proof -
  have "sum_list (map h (filter P xs)) = sum_mset (mset (map h (filter P xs)))"
    by (simp only: sum_mset_sum_list)
  then show ?thesis by (simp only: mset_map mset_filter)
qed

lemma file_entries_mset:
  "mset (blocks h1) = mset (blocks h2) \<Longrightarrow> file_entries h1 name = file_entries h2 name"
  unfolding file_entries_def sum_filter_mset by simp

lemma total_hashes_mset:
  "mset (blocks h1) = mset (blocks h2) \<Longrightarrow> total_hashes h1 = total_hashes h2"
proof -
  assume m: "mset (blocks h1) = mset (blocks h2)"
  have "total_hashes h = sum_mset (image_mset (\<lambda>b. length (snd b)) (mset (blocks h)))" for h
    unfolding total_hashes_def counts_def
    by (metis mset_map sum_mset_sum_list)
  with m show ?thesis by simp
qed

text \<open>
  C1: for every list of files and every N of at least 1, when no analysis raises and every
  worker finishes, the multi-process build path of new and add (split into N lists, one
  partial index per list, the partial indexes merged one after the other into the primary
  index) leaves in the primary index the same number of entries for every file name, and
  the same total number of stored hashes, as the ingest loop of the single-process executor
  over the same list; that total is the primary index's former total plus the hashes of
  the files. (The single-process executor may still raise at its closing report, after the
  loop; the index it has built by then is the one compared.)
\<close>

theorem build_path_matches_single_process:
  "cmd = ''new'' \<or> cmd = ''add'' \<Longrightarrow> 0 < n \<Longrightarrow> tab st = Some ht \<Longrightarrow> 0 \<le> maxtimebits ht \<Longrightarrow>
   anl st = Some an \<Longrightarrow> fail_on_error an \<longrightarrow> (\<forall>f\<in>set fl. audio ext f \<noteq> None) \<Longrightarrow>
   {0..<n} \<subseteq> set sched \<Longrightarrow>
     \<exists>hs hm. tab (fst (do_cmd ext cmd (fl, None) mt outdir ty skip sp st)) = Some hs
            \<and> tab (fst (multiproc_add ext sched (fl, None) n st)) = Some hm
            \<and> snd (multiproc_add ext sched (fl, None) n st) = Done
            \<and> (\<forall>name. file_entries hm name = file_entries hs name)
            \<and> total_hashes hm = total_hashes hs
            \<and> total_hashes hs
                 = total_hashes ht + sum_list (map (\<lambda>f. length (hashes_of ext f)) fl)"
proof -
  assume c: "cmd = ''new'' \<or> cmd = ''add''" and n: "0 < n" and t: "tab st = Some ht"
    and mb: "0 \<le> maxtimebits ht" and a: "anl st = Some an"
    and ok: "fail_on_error an \<longrightarrow> (\<forall>f\<in>set fl. audio ext f \<noteq> None)"
    and s: "{0..<n} \<subseteq> set sched"
  let ?g = "\<lambda>f. (f, hashes_of ext f)"
  let ?parts = "split_files n fl 0 (replicate n [])"
  let ?hm = "foldl ht_merge ht (map (\<lambda>c. partial_index ext ht (?parts ! c)) [0..<n])"
  note r = multiproc_add_result[OF n t mb a ok s]
  have m1: "tab (fst (multiproc_add ext sched (fl, None) n st)) = Some ?hm"
    and m2: "snd (multiproc_add ext sched (fl, None) n st) = Done"
    unfolding r by simp_all
  have "blocks ?hm = blocks ht @ concat (map (\<lambda>c. map ?g (?parts ! c)) [0..<n])"
    by (simp add: blocks_foldl_merge blocks_partial_index comp_def)
  also have "\<dots> = blocks ht @ map ?g (concat ?parts)"
    by (simp add: concat_map_nth split_files_length)
  finally have bm: "blocks ?hm = blocks ht @ map ?g (concat ?parts)" .
  from ingest_loop_ok[OF t a ok, of 0 0] obtain st1 hs where
    l: "ingest_loop ext fl 0 0 st = (Inr (0 + sum_list (map (\<lambda>f. length (hashes_of ext f)) fl)), st1)"
    and t1: "tab st1 = Some hs" and bs: "blocks hs = blocks ht @ map ?g fl"
    by blast
  have s1: "tab (fst (do_cmd ext cmd (fl, None) mt outdir ty skip sp st)) = Some hs"
    unfolding do_cmd_new_add[OF c] using l t1
    by (simp split: option.splits)
  have "mset (concat ?parts) = mset fl"
    using n by (simp add: mset_concat_split_files)
  then have ms: "mset (blocks ?hm) = mset (blocks hs)"
    unfolding bm bs by (simp only: mset_append mset_map)
  have tot: "total_hashes hs = total_hashes ht + sum_list (map (\<lambda>f. length (hashes_of ext f)) fl)"
    unfolding total_hashes_def counts_def bs by (simp add: comp_def)
  from s1 m1 m2 file_entries_mset[OF ms] total_hashes_mset[OF ms] tot
  show ?thesis by blast
qed

theorem build_path_matches_single_process_witness:
  "\<exists>hs hm. tab (fst (do_cmd sample_externals ''new'' ([''a.wav'', ''b.wav'', ''silence.wav''], None)
                        None ''.'' ''hashes'' False [] build_state)) = Some hs
          \<and> tab (fst (multiproc_add sample_externals [1, 0]
                        ([''a.wav'', ''b.wav'', ''silence.wav''], None) 2 build_state)) = Some hm
          \<and> file_entries hm ''a.wav'' = file_entries hs ''a.wav''
          \<and> total_hashes hm = total_hashes hs \<and> total_hashes hs = 3"
proof -
  have c: "''new'' = ''new'' \<or> ''new'' = ''add''" by simp
  have n: "(0::nat) < 2" by simp
  have s: "{0..<2} \<subseteq> set [1, 0::nat]" by auto
  from build_path_matches_single_process[OF c n build_state_facts s,
      of None "''.''" "''hashes''" False "[]"]
  obtain hs hm where
    h: "tab (fst (do_cmd sample_externals ''new'' ([''a.wav'', ''b.wav'', ''silence.wav''], None)
                        None ''.'' ''hashes'' False [] build_state)) = Some hs"
       "tab (fst (multiproc_add sample_externals [1, 0]
                        ([''a.wav'', ''b.wav'', ''silence.wav''], None) 2 build_state)) = Some hm"
       "\<forall>name. file_entries hm name = file_entries hs name"
       "total_hashes hm = total_hashes hs"
       "total_hashes hs = total_hashes build_table
           + sum_list (map (\<lambda>f. length (hashes_of sample_externals f))
                         [''a.wav'', ''b.wav'', ''silence.wav''])"
    by blast
  have "total_hashes build_table
           + sum_list (map (\<lambda>f. length (hashes_of sample_externals f))
                         [''a.wav'', ''b.wav'', ''silence.wav'']) = 3"
    by (simp add: total_hashes_def counts_def build_table_def HashTable_new_def hashes_of_def
          sample_externals_def)
  with h show ?thesis by auto
qed

subsection \<open>The log of the parallel-task path\<close>

lemma file_precompute_block:
  "file_precompute ext an filename outdir ty skip sp fs = (Inr msgs, an', fs') \<Longrightarrow>
     precompute_block ext outdir ty sp filename msgs"
proof -
  assume a: "file_precompute ext an filename outdir ty skip sp fs = (Inr msgs, an', fs')"
  show ?thesis
  proof (cases "skip \<and> isfile fs (output_name ext filename outdir None (ty = ''hashes'') sp)")
    case True
    with a show ?thesis
      by (auto simp: file_precompute_def file_precompute_peaks_or_hashes_def precompute_block_def)
  next
    case False
    show ?thesis
    proof (cases an)
      case None
      with a False show ?thesis
        by (auto simp: file_precompute_def file_precompute_peaks_or_hashes_def)
    next
      case (Some x)
      obtain r x' where w: "(if ty = ''hashes'' then wavfile2hashes ext x filename
                      else wavfile2peaks ext x filename) = (r, x')"
        by (cases "if ty = ''hashes'' then wavfile2hashes ext x filename
                   else wavfile2peaks ext x filename") auto
      from a False Some w show ?thesis
        by (auto simp: file_precompute_def file_precompute_peaks_or_hashes_def Let_def
              precompute_block_def split: sum.splits if_splits)
    qed
  qed
qed

lemma precompute_loop_blocks:
  "precompute_loop ext outdir ty skip sp fl st = (st', Done) \<Longrightarrow>
     \<exists>results. trace_log st' = trace_log st @ results
             \<and> list_all2 (precompute_block ext outdir ty sp) fl results"
proof (induction fl arbitrary: st)
  case Nil
  then show ?case by simp
next
  case (Cons f fl)
  obtain r an' fs' where fp:
    "file_precompute ext (anl st) f outdir ty skip sp (disk st) = (r, an', fs')"
    by (cases "file_precompute ext (anl st) f outdir ty skip sp (disk st)") auto
  show ?case
  proof (cases r)
    case (Inl e)
    with Cons.prems fp show ?thesis by simp
  next
    case (Inr msgs)
    let ?st = "st\<lparr>disk := fs', anl := an', trace_log := trace_log st @ [msgs]\<rparr>"
    from Cons.prems fp Inr have "precompute_loop ext outdir ty skip sp fl ?st = (st', Done)"
      by simp
    from Cons.IH[OF this] obtain results where
      r: "trace_log st' = trace_log ?st @ results"
         "list_all2 (precompute_block ext outdir ty sp) fl results" by blast
    from fp Inr have "precompute_block ext outdir ty sp f msgs"
      by (auto dest: file_precompute_block)
    with r have "trace_log st' = trace_log st @ (msgs # results)
                 \<and> list_all2 (precompute_block ext outdir ty sp) (f # fl) (msgs # results)"
      by simp
    then show ?thesis by blast
  qed
qed

lemma run_tasks_sound:
  "run_tasks task sched fs fin = (Inr fin', fs') \<Longrightarrow> \<forall>p\<in>set fin. Q (fst p) (snd p) \<Longrightarrow>
   (\<And>i s r s'. task i s = (Inr r, s') \<Longrightarrow> Q i r) \<Longrightarrow> \<forall>p\<in>set fin'. Q (fst p) (snd p)"
proof (induction sched arbitrary: fs fin)
  case Nil
  then show ?case by simp
next
  case (Cons i sched)
  obtain r s' where t: "task i fs = (r, s')" by (cases "task i fs") auto
  show ?case
  proof (cases r)
    case (Inl e)
    with Cons.prems(1) t show ?thesis by simp
  next
    case (Inr v)
    with Cons.prems(1) t have "run_tasks task sched s' (fin @ [(i, v)]) = (Inr fin', fs')"
      by simp
    moreover from Cons.prems(2,3) t Inr have "\<forall>p\<in>set (fin @ [(i, v)]). Q (fst p) (snd p)"
      by auto
    ultimately show ?thesis using Cons.IH Cons.prems(3) by blast
  qed
qed

lemma those_Some:
  "those xs = Some ys \<Longrightarrow> list_all2 (\<lambda>x y. x = Some y) xs ys"
  by (induction xs arbitrary: ys) (auto split: option.splits)

lemma Parallel_results:
  assumes "Parallel sched n_jobs n task fs = ((Done, results), fs')"
    and "\<And>i s r s'. task i s = (Inr r, s') \<Longrightarrow> Q i r"
  shows "length results = n \<and> (\<forall>k<n. Q k (results ! k))"
proof -
  obtain r0 fs0 where rt: "run_tasks task (remdups (filter (\<lambda>i. i < n) sched)) fs [] = (r0, fs0)"
    by (cases "run_tasks task (remdups (filter (\<lambda>i. i < n) sched)) fs []") auto
  from assms(1) rt obtain fin where r0: "r0 = Inr fin"
    and th: "those (map (map_of fin) [0..<n]) = Some results"
    by (auto simp: Parallel_def split: sum.splits option.splits)
  from run_tasks_sound[OF rt[unfolded r0], of Q] assms(2)
  have q: "\<forall>p\<in>set fin. Q (fst p) (snd p)" by auto
  from those_Some[OF th] have l: "list_all2 (\<lambda>x y. x = Some y) (map (map_of fin) [0..<n]) results" .
  then have len: "length results = n" by (auto dest: list_all2_lengthD)
  have "Q k (results ! k)" if "k < n" for k
  proof -
    from l that len have "map_of fin k = Some (results ! k)"
      by (auto simp: list_all2_conv_all_nth)
    then have "(k, results ! k) \<in> set fin" by (rule map_of_SomeD)
    with q show ?thesis by auto
  qed
  with len show ?thesis by simp
qed

lemma run_tasks_pure:
  "\<forall>i\<in>set sched. task i fs = (Inr (g i), fs) \<Longrightarrow>
     run_tasks task sched fs fin = (Inr (fin @ map (\<lambda>i. (i, g i)) sched), fs)"
  by (induction sched arbitrary: fin) simp_all

lemma those_map_Some: "those (map (\<lambda>k. Some (g k)) ks) = Some (map g ks)"
  by (induction ks) simp_all

lemma Parallel_pure:
  assumes "\<forall>i<n. task i fs = (Inr (g i), fs)" and "{0..<n} \<subseteq> set sched"
  shows "Parallel sched n_jobs n task fs = ((Done, map g [0..<n]), fs)"
proof -
  let ?s = "remdups (filter (\<lambda>i. i < n) sched)"
  from assms(1) have "\<forall>i\<in>set ?s. task i fs = (Inr (g i), fs)" by simp
  with run_tasks_pure[of ?s task fs g "[]"]
  have rt: "run_tasks task ?s fs [] = (Inr (map (\<lambda>i. (i, g i)) ?s), fs)" by simp
  have "map_of (map (\<lambda>i. (i, g i)) ?s) k = Some (g k)" if "k < n" for k
  proof -
    from that assms(2) have "k \<in> set ?s" by auto
    then show ?thesis by (simp add: map_of_map_restrict restrict_map_def)
  qed
  then have "map (map_of (map (\<lambda>i. (i, g i)) ?s)) [0..<n] = map (\<lambda>k. Some (g k)) [0..<n]"
    by simp
  then have "those (map (map_of (map (\<lambda>i. (i, g i)) ?s)) [0..<n]) = Some (map g [0..<n])"
    by (simp only: those_map_Some)
  with rt show ?thesis by (simp add: Parallel_def)
qed

lemma match_loop_log:
  "match_loop ext (Some m) fl num st =
     (st\<lparr>trace_log := trace_log st
           @ map (\<lambda>p. match_report ext m (anl st) (tab st) (snd p) (Some (fst p))) (enumerate num fl)\<rparr>,
      Done)"
  by (induction fl arbitrary: num st) simp_all

lemma map_nth_fun: "map (\<lambda>i. h (xs ! i)) [0..<length xs] = map h xs"
  by (rule nth_equalityI) simp_all

lemma multiproc_match_log:
  assumes "{0..<length fl} \<subseteq> set sched"
  shows "do_cmd_multiproc ext sched ''match'' (fl, None) (Some m) outdir ty skip sp n st
           = (st\<lparr>trace_log := trace_log st
                  @ map (\<lambda>f. match_report ext m (anl st) (tab st) f None) fl\<rparr>, Done)"
proof -
  let ?task = "\<lambda>i fs. (matcher_file_match_to_msgs ext (Some m) (anl st) (tab st) (fl ! i), fs)"
  let ?g = "\<lambda>i. match_report ext m (anl st) (tab st) (fl ! i) None"
  have "\<forall>i<length fl. ?task i (disk st) = (Inr (?g i), disk st)"
    by (simp add: matcher_file_match_to_msgs_def)
  moreover have "map ?g [0..<length fl] = map (\<lambda>f. match_report ext m (anl st) (tab st) f None) fl"
    by (rule map_nth_fun)
  ultimately show ?thesis
    using Parallel_pure[of "length fl" ?task "disk st" ?g sched n, OF _ assms]
    by (simp add: do_cmd_multiproc_def log_results_def)
qed

lemma multiproc_precompute_all_skipped:
  assumes "{0..<length fl} \<subseteq> set sched"
    and "\<forall>f\<in>set fl. isfile (disk st) (output_name ext f outdir None (ty = ''hashes'') sp)"
  shows "do_cmd_multiproc ext sched ''precompute'' (fl, None) mt outdir ty True sp n st
           = (st\<lparr>trace_log := trace_log st
                 @ map (\<lambda>f. [skip_message (output_name ext f outdir None (ty = ''hashes'') sp)]) fl\<rparr>,
              Done)"
proof -
  let ?task = "\<lambda>i fs. case file_precompute ext (anl st) (fl ! i) outdir ty True sp fs of
                         (r, an', fs') \<Rightarrow> (r, fs')"
  let ?g = "\<lambda>i. [skip_message (output_name ext (fl ! i) outdir None (ty = ''hashes'') sp)]"
  from assms(2) have "\<forall>i<length fl. ?task i (disk st) = (Inr (?g i), disk st)"
    by (simp add: file_precompute_def precompute_skips)
  moreover have "map ?g [0..<length fl]
      = map (\<lambda>f. [skip_message (output_name ext f outdir None (ty = ''hashes'') sp)]) fl"
    by (rule map_nth_fun)
  ultimately show ?thesis
    using Parallel_pure[of "length fl" ?task "disk st" ?g sched n, OF _ assms(1)]
    by (simp add: do_cmd_multiproc_def log_results_def)
qed

lemma multiproc_precompute_blocks:
  assumes "do_cmd_multiproc ext sched ''precompute'' (fl, None) mt outdir ty skip sp n st = (st', Done)"
  shows "\<exists>results. trace_log st' = trace_log st @ results
             \<and> list_all2 (precompute_block ext outdir ty sp) fl results"
proof -
  let ?task = "\<lambda>i fs. case file_precompute ext (anl st) (fl ! i) outdir ty skip sp fs of
                         (r, an', fs') \<Rightarrow> (r, fs')"
  obtain oc results fs' where p:
    "Parallel sched n (length fl) ?task (disk st) = ((oc, results), fs')"
    by (cases "Parallel sched n (length fl) ?task (disk st)") auto
  from assms p have d: "oc = Done" and t: "trace_log st' = trace_log st @ results"
    by (auto simp: do_cmd_multiproc_def log_results_def split: outcome.splits)
  have q: "precompute_block ext outdir ty sp (fl ! i) r" if "?task i s = (Inr r, s')" for i s r s'
    using that by (auto split: prod.splits dest: file_precompute_block)
  from Parallel_results[OF p[unfolded d], of "\<lambda>i r. precompute_block ext outdir ty sp (fl ! i) r"] q
  have "length results = length fl"
    and "\<forall>k<length fl. precompute_block ext outdir ty sp (fl ! k) (results ! k)" by blast+
  then have "list_all2 (precompute_block ext outdir ty sp) fl results"
    by (simp add: list_all2_conv_all_nth)
  with t show ?thesis by blast
qed

text \<open>
  C6: whatever the order in which the tasks finish (every task finishing), the multi-process
  match logs one block per file in the order of the input, as the single-process match
  does (whose blocks carry the file's number besides). For precompute, a run of either
  executor that ends without error has logged exactly one block per file, in the order of
  the input, each the block of that file's precompute; and when the artifacts of all files
  exist and skip-existing is on, the two executors end in the same state with the same log.
\<close>

theorem parallel_log_order:
  "({0..<length fl} \<subseteq> set sched \<longrightarrow>
       do_cmd_multiproc ext sched ''match'' (fl, None) (Some m) outdir ty skip sp n st
         = (st\<lparr>trace_log := trace_log st
                @ map (\<lambda>f. match_report ext m (anl st) (tab st) f None) fl\<rparr>, Done)
     \<and> do_cmd ext ''match'' (fl, None) (Some m) outdir ty skip sp st
         = (st\<lparr>trace_log := trace_log st
                @ map (\<lambda>p. match_report ext m (anl st) (tab st) (snd p) (Some (fst p)))
                    (enumerate 0 fl)\<rparr>, Done))
   \<and> (\<forall>st'. do_cmd_multiproc ext sched ''precompute'' (fl, None) mt outdir ty skip sp n st
               = (st', Done) \<longrightarrow>
          (\<exists>results. trace_log st' = trace_log st @ results
                    \<and> list_all2 (precompute_block ext outdir ty sp) fl results))
   \<and> (\<forall>st'. do_cmd ext ''precompute'' (fl, None) mt outdir ty skip sp st = (st', Done) \<longrightarrow>
          (\<exists>results. trace_log st' = trace_log st @ results
                    \<and> list_all2 (precompute_block ext outdir ty sp) fl results))
   \<and> ({0..<length fl} \<subseteq> set sched
        \<and> (\<forall>f\<in>set fl. isfile (disk st) (output_name ext f outdir None (ty = ''hashes'') sp)) \<longrightarrow>
          do_cmd_multiproc ext sched ''precompute'' (fl, None) mt outdir ty True sp n st
            = do_cmd ext ''precompute'' (fl, None) mt outdir ty True sp st)"
proof (intro conjI allI impI)
  show "do_cmd_multiproc ext sched ''match'' (fl, None) (Some m) outdir ty skip sp n st
         = (st\<lparr>trace_log := trace_log st
                @ map (\<lambda>f. match_report ext m (anl st) (tab st) f None) fl\<rparr>, Done)"
    if "{0..<length fl} \<subseteq> set sched"
    using that by (rule multiproc_match_log)
  show "do_cmd ext ''match'' (fl, None) (Some m) outdir ty skip sp st
         = (st\<lparr>trace_log := trace_log st
                @ map (\<lambda>p. match_report ext m (anl st) (tab st) (snd p) (Some (fst p)))
                    (enumerate 0 fl)\<rparr>, Done)"
    by (simp add: do_cmd_def end_of_iteration_def match_loop_log)
  show "\<exists>results. trace_log st' = trace_log st @ results
                    \<and> list_all2 (precompute_block ext outdir ty sp) fl results"
    if "do_cmd_multiproc ext sched ''precompute'' (fl, None) mt outdir ty skip sp n st = (st', Done)"
    for st'
    using that by (rule multiproc_precompute_blocks)
  show "\<exists>results. trace_log st' = trace_log st @ results
                    \<and> list_all2 (precompute_block ext outdir ty sp) fl results"
    if "do_cmd ext ''precompute'' (fl, None) mt outdir ty skip sp st = (st', Done)" for st'
  proof -
    from that have "precompute_loop ext outdir ty skip sp fl st = (st', Done)"
      by (auto simp: do_cmd_def end_of_iteration_def split: prod.splits outcome.splits)
    then show ?thesis by (rule precompute_loop_blocks)
  qed
  show "do_cmd_multiproc ext sched ''precompute'' (fl, None) mt outdir ty True sp n st
            = do_cmd ext ''precompute'' (fl, None) mt outdir ty True sp st"
    if h: "{0..<length fl} \<subseteq> set sched
        \<and> (\<forall>f\<in>set fl. isfile (disk st) (output_name ext f outdir None (ty = ''hashes'') sp))"
  proof -
    from h have a: "{0..<length fl} \<subseteq> set sched"
      and b: "\<forall>f\<in>set fl. isfile (disk st) (output_name ext f outdir None (ty = ''hashes'') sp)"
      by blast+
    from multiproc_precompute_all_skipped[OF a b] precompute_loop_all_skipped[OF b]
    show ?thesis by (simp add: do_cmd_def end_of_iteration_def)
  qed
qed

lemma multi_precompute_sample:
  "do_cmd_multiproc sample_externals [1, 0] ''precompute'' ([''a.wav'', ''silence.wav''], None)
      None ''.'' ''hashes'' False [] 2 precompute_state
   = (precompute_state
        \<lparr>disk := disk_with_dot\<lparr>files := [''./a.afpt'' \<mapsto> Precomp [(1, 5), (2, 7)]]\<rparr>,
         trace_log := [[Wrote ''./a.afpt'' 2 ''hashes'' 3],
                       [Str ''Zero length analysis for silence.wav -- not saving.'']]\<rparr>, Done)"
  by (simp add: do_cmd_multiproc_def Parallel_def log_results_def file_precompute_def
        file_precompute_peaks_or_hashes_def output_name_def splitext_def path_join_def
        isfile_def precompute_state_def disk_with_dot_def wavfile2hashes_def sample_externals_def
        ensure_dir_def path_split_def path_exists_def precomp_save_def sample_analyzer_def
        setup_analyzer_def Analyzer_new_def Let_def)

theorem parallel_log_order_witness:
  "trace_log (fst (do_cmd_multiproc sample_externals [1, 0] ''match'' ([''a.wav'', ''b.wav''], None)
                     (Some sample_matcher) ''.'' ''hashes'' False [] 2 build_state))
     = [[Str ''a.wav''], [Str ''b.wav'']]
   \<and> trace_log (fst (do_cmd sample_externals ''match'' ([''a.wav'', ''b.wav''], None)
                     (Some sample_matcher) ''.'' ''hashes'' False [] build_state))
     = [[Str ''a.wav''], [Str ''b.wav'']]
   \<and> list_all2 (precompute_block sample_externals ''.'' ''hashes'' [])
        [''a.wav'', ''silence.wav'']
        [[Wrote ''./a.afpt'' 2 ''hashes'' 3],
         [Str ''Zero length analysis for silence.wav -- not saving.'']]"
proof -
  have s: "{0..<length [''a.wav'', ''b.wav'']} \<subseteq> set [1, 0::nat]" by auto
  note t = parallel_log_order[of "[''a.wav'', ''b.wav'']" "[1, 0]" sample_externals sample_matcher
      "''.''" "''hashes''" False "[]" 2 build_state, THEN conjunct1, rule_format, OF s]
  have m: "trace_log (fst (do_cmd_multiproc sample_externals [1, 0] ''match''
                     ([''a.wav'', ''b.wav''], None)
                     (Some sample_matcher) ''.'' ''hashes'' False [] 2 build_state))
     = [[Str ''a.wav''], [Str ''b.wav'']]
   \<and> trace_log (fst (do_cmd sample_externals ''match'' ([''a.wav'', ''b.wav''], None)
                     (Some sample_matcher) ''.'' ''hashes'' False [] build_state))
     = [[Str ''a.wav''], [Str ''b.wav'']]"
    unfolding t[THEN conjunct1] t[THEN conjunct2]
    by (simp add: build_state_def sample_externals_def)
  note p = parallel_log_order[of "[''a.wav'', ''silence.wav'']" "[1, 0]" sample_externals _
      "''.''" "''hashes''" False "[]" 2 precompute_state None,
      THEN conjunct2, THEN conjunct1, rule_format, OF multi_precompute_sample]
  then obtain results where
    r: "trace_log (precompute_state
        \<lparr>disk := disk_with_dot\<lparr>files := [''./a.afpt'' \<mapsto> Precomp [(1, 5), (2, 7)]]\<rparr>,
         trace_log := [[Wrote ''./a.afpt'' 2 ''hashes'' 3],
                       [Str ''Zero length analysis for silence.wav -- not saving.'']]\<rparr>)
         = trace_log precompute_state @ results"
    and l: "list_all2 (precompute_block sample_externals ''.'' ''hashes'' [])
              [''a.wav'', ''silence.wav''] results"
    by blast
  from r have "results = [[Wrote ''./a.afpt'' 2 ''hashes'' 3],
                          [Str ''Zero length analysis for silence.wav -- not saving.'']]"
    by (simp add: precompute_state_def)
  with l m show ?thesis by simp
qed

subsection \<open>Persistence of the primary index\<close>

lemma end_of_iteration_fst: "fst (end_of_iteration err r) = fst r"
  by (auto simp: end_of_iteration_def split: prod.splits outcome.splits option.splits)

lemma merge_loop_saves: "saves (fst (merge_loop fl st)) = saves st"
  by (induction fl arbitrary: st) (auto split: sum.splits option.splits)

lemma precompute_loop_saves:
  "saves (fst (precompute_loop ext outdir ty skip sp fl st)) = saves st"
  by (induction fl arbitrary: st) (auto split: sum.splits prod.splits)

lemma precompute_loop_tab:
  "tab (fst (precompute_loop ext outdir ty skip sp fl st)) = tab st"
  by (induction fl arbitrary: st) (auto split: sum.splits prod.splits)

lemma match_loop_saves: "saves (fst (match_loop ext mt fl num st)) = saves st"
  by (induction fl arbitrary: num st) (auto split: option.splits)

lemma match_loop_tab: "tab (fst (match_loop ext mt fl num st)) = tab st"
  by (induction fl arbitrary: num st) (auto split: option.splits)

lemma ingest_loop_saves: "saves (snd (ingest_loop ext fl tot ix st)) = saves st"
  by (induction fl arbitrary: tot ix st)
     (auto simp: Let_def split: option.splits sum.splits prod.splits)

lemma remove_loop_saves: "saves (fst (remove_loop fl st)) = saves st"
  by (induction fl arbitrary: st) (auto split: option.splits)

lemma do_cmd_merge:
  "cmd = ''merge'' \<or> cmd = ''newmerge'' \<Longrightarrow>
     do_cmd ext cmd it mt outdir ty skip sp st = end_of_iteration (snd it) (merge_loop (fst it) st)"
  by (simp add: do_cmd_def)

lemma do_cmd_precompute:
  "do_cmd ext ''precompute'' it mt outdir ty skip sp st =
     end_of_iteration (snd it) (precompute_loop ext outdir ty skip sp (fst it) st)"
  by (simp add: do_cmd_def)

lemma do_cmd_match:
  "do_cmd ext ''match'' it mt outdir ty skip sp st =
     end_of_iteration (snd it) (match_loop ext mt (fst it) 0 st)"
  by (simp add: do_cmd_def)

lemma do_cmd_remove:
  "do_cmd ext ''remove'' it mt outdir ty skip sp st =
     end_of_iteration (snd it) (remove_loop (fst it) st)"
  by (simp add: do_cmd_def)

lemma do_cmd_list:
  "do_cmd ext ''list'' it mt outdir ty skip sp st =
     (case tab st of
        None \<Rightarrow> (st, Raised AttributeError)
      | Some ht \<Rightarrow> (st\<lparr>trace_log := trace_log st @ map (\<lambda>x. [Str x]) (names ht)\<rparr>, Done))"
  by (simp add: do_cmd_def)

lemma do_cmd_new_add_saves:
  "cmd = ''new'' \<or> cmd = ''add'' \<Longrightarrow>
     saves (fst (do_cmd ext cmd it mt outdir ty skip sp st)) = saves st"
proof -
  assume c: "cmd = ''new'' \<or> cmd = ''add''"
  obtain r st1 where l: "ingest_loop ext (fst it) 0 0 st = (r, st1)"
    by (cases "ingest_loop ext (fst it) 0 0 st") auto
  from ingest_loop_saves[of ext "fst it" 0 0 st] l have "saves st1 = saves st" by simp
  with l show ?thesis
    unfolding do_cmd_new_add[OF c] by (auto split: sum.splits option.splits)
qed

lemma do_cmd_saves:
  "cmd \<in> set choices \<Longrightarrow> saves (fst (do_cmd ext cmd it mt outdir ty skip sp st)) = saves st"
proof -
  assume "cmd \<in> set choices"
  from in_choices[OF this]
  have "cmd = ''new'' \<or> cmd = ''add'' \<or> cmd = ''precompute'' \<or> cmd = ''merge''
        \<or> cmd = ''newmerge'' \<or> cmd = ''match'' \<or> cmd = ''list'' \<or> cmd = ''remove''"
    by simp
  then show ?thesis
  proof (elim disjE)
    assume "cmd = ''new''"
    then show ?thesis by (simp add: do_cmd_new_add_saves)
  next
    assume "cmd = ''add''"
    then show ?thesis by (simp add: do_cmd_new_add_saves)
  next
    assume "cmd = ''precompute''"
    then show ?thesis by (simp add: do_cmd_precompute end_of_iteration_fst precompute_loop_saves)
  next
    assume "cmd = ''merge''"
    then show ?thesis by (simp add: do_cmd_merge end_of_iteration_fst merge_loop_saves)
  next
    assume "cmd = ''newmerge''"
    then show ?thesis by (simp add: do_cmd_merge end_of_iteration_fst merge_loop_saves)
  next
    assume "cmd = ''match''"
    then show ?thesis by (simp add: do_cmd_match end_of_iteration_fst match_loop_saves)
  next
    assume "cmd = ''list''"
    then show ?thesis by (simp add: do_cmd_list split: option.splits)
  next
    assume "cmd = ''remove''"
    then show ?thesis by (simp add: do_cmd_remove end_of_iteration_fst remove_loop_saves)
  qed
qed

lemma do_cmd_tab_readonly:
  "cmd = ''list'' \<or> cmd = ''match'' \<or> cmd = ''precompute'' \<Longrightarrow>
     tab (fst (do_cmd ext cmd it mt outdir ty skip sp st)) = tab st"
  by (auto simp: do_cmd_list do_cmd_match do_cmd_precompute end_of_iteration_fst match_loop_tab
        precompute_loop_tab split: option.splits)

lemma open_table_saves: "saves (fst (open_table ext opts st)) = saves st"
  by (auto simp: open_table_def Let_def split: option.splits sum.splits)

lemma open_table_loaded:
  "open_table ext opts st = (st1, Done) \<Longrightarrow> o_cmd opts = ''list'' \<or> o_cmd opts = ''match'' \<Longrightarrow>
     \<exists>ht. tab st1 = Some ht \<and> \<not> dirty ht"
  by (auto simp: open_table_def Let_def HashTable_load_def
           split: option.splits sum.splits if_splits content.splits)

lemma open_table_dbase:
  "open_table ext opts st = (st1, Done) \<Longrightarrow>
     (o_cmd opts = ''precompute'' \<and> tab st1 = None) \<or> (\<exists>p. o_dbase opts = Some p)"
  by (auto simp: open_table_def Let_def split: option.splits sum.splits if_splits)

lemma run_command_saves: "saves (fst (run_command ext opts fs0)) = []"
proof (cases "o_cmd opts \<in> set choices")
  case False
  then show ?thesis by (simp add: run_command_def initial_state_def)
next
  case True
  obtain st1 oc where ot: "open_table ext opts (initial_state opts fs0) = (st1, oc)"
    by (cases "open_table ext opts (initial_state opts fs0)") auto
  from open_table_saves[of ext opts "initial_state opts fs0"] ot
  have s1: "saves st1 = []" by (simp add: initial_state_def)
  show ?thesis
  proof (cases oc)
    case Done
    with True ot s1 show ?thesis
      by (simp add: run_command_def do_cmd_saves split: executor.splits)
  next
    case (Raised e)
    with True ot s1 show ?thesis by (simp add: run_command_def)
  next
    case Blocked
    with True ot s1 show ?thesis by (simp add: run_command_def)
  qed
qed

lemma run_command_done:
  assumes "run_command ext opts fs0 = (st1, Done)"
  shows "(o_cmd opts = ''list'' \<or> o_cmd opts = ''match'' \<longrightarrow> (\<exists>ht. tab st1 = Some ht \<and> \<not> dirty ht))
       \<and> (tab st1 \<noteq> None \<longrightarrow> (\<exists>p. o_dbase opts = Some p))"
proof -
  from assms have ch: "o_cmd opts \<in> set choices"
    by (auto simp: run_command_def split: if_splits)
  obtain st0 oc where ot: "open_table ext opts (initial_state opts fs0) = (st0, oc)"
    by (cases "open_table ext opts (initial_state opts fs0)") auto
  from assms ch ot have oc: "oc = Done"
    by (cases oc) (auto simp: run_command_def)
  from assms ch ot oc have d: "do_cmd ext (o_cmd opts)
                    (filename_list_iterator (disk st0) (o_file opts) (o_wavdir opts)
                       (o_wavext opts) (o_list opts))
                    (the_matcher opts) (o_precompdir opts) (precomp_type opts)
                    (o_skip_existing opts) (o_wavdir opts) st0 = (st1, Done)"
    by (auto simp: run_command_def split: executor.splits)
  have a: "\<exists>ht. tab st1 = Some ht \<and> \<not> dirty ht"
    if c: "o_cmd opts = ''list'' \<or> o_cmd opts = ''match''"
  proof -
    from open_table_loaded[OF ot[unfolded oc] c] obtain ht where "tab st0 = Some ht" "\<not> dirty ht"
      by blast
    moreover from c have "o_cmd opts = ''list'' \<or> o_cmd opts = ''match'' \<or> o_cmd opts = ''precompute''"
      by blast
    from do_cmd_tab_readonly[OF this] d have "tab st1 = tab st0"
      by (metis fst_conv)
    ultimately show ?thesis by simp
  qed
  have b: "\<exists>p. o_dbase opts = Some p" if t: "tab st1 \<noteq> None"
  proof -
    from open_table_dbase[OF ot[unfolded oc]]
    show ?thesis
    proof
      assume p: "o_cmd opts = ''precompute'' \<and> tab st0 = None"
      then have "o_cmd opts = ''list'' \<or> o_cmd opts = ''match'' \<or> o_cmd opts = ''precompute''"
        by blast
      from do_cmd_tab_readonly[OF this] d have "tab st1 = tab st0"
        by (metis fst_conv)
      with p t show ?thesis by simp
    qed
  qed
  from a b show ?thesis by blast
qed

lemma persist_saves:
  "saves (fst (persist opts st)) =
     saves st @ (case tab st of
                   None \<Rightarrow> []
                 | Some ht \<Rightarrow> if dirty ht then (case o_dbase opts of None \<Rightarrow> [] | Some p \<Rightarrow> [p]) else [])"
  by (auto simp: persist_def split: option.splits prod.splits sum.splits)

lemma saves_target:
  "xs = (case t of
           None \<Rightarrow> []
         | Some ht \<Rightarrow> if dirty ht then (case d of None \<Rightarrow> [] | Some p \<Rightarrow> [p]) else []) \<Longrightarrow>
     xs = [] \<or> (\<exists>q. xs = [q] \<and> d = Some q)"
  by (simp split: option.splits if_splits)

text \<open>
  C3: in every run the index's \<open>save\<close> is called at most once, and only on the path named
  by the index option, newmerge's fresh index included. A run that reaches the end of
  \<open>main\<close> (\<open>run_command\<close> ends without raising) calls it exactly when the run holds an
  index handle whose dirty flag is set at that point; a run that raises before that point
  calls it never. A list or a match run never calls it.
\<close>

theorem persist_once_iff_dirty:
  "run_command ext opts fs0 = (st1, oc) \<Longrightarrow> main ext opts fs0 = (st2, oc2) \<Longrightarrow>
     length (saves st2) \<le> 1
   \<and> (\<forall>p\<in>set (saves st2). o_dbase opts = Some p)
   \<and> (oc = Done \<longrightarrow> (saves st2 \<noteq> []) = (\<exists>ht. tab st1 = Some ht \<and> dirty ht))
   \<and> (oc \<noteq> Done \<longrightarrow> saves st2 = [])
   \<and> (o_cmd opts = ''list'' \<or> o_cmd opts = ''match'' \<longrightarrow> saves st2 = [])"
proof -
  assume r: "run_command ext opts fs0 = (st1, oc)" and m: "main ext opts fs0 = (st2, oc2)"
  from run_command_saves[of ext opts fs0] r have s1: "saves st1 = []" by simp
  show ?thesis
  proof (cases "oc = Done")
    case False
    with r m have "st2 = st1" by (cases oc) (auto simp: main_def)
    with s1 False show ?thesis by simp
  next
    case True
    with r m have p: "persist opts st1 = (st2, oc2)" by (simp add: main_def)
    from persist_saves[of opts st1] p s1
    have s2: "saves st2 = (case tab st1 of
                   None \<Rightarrow> []
                 | Some ht \<Rightarrow> if dirty ht then (case o_dbase opts of None \<Rightarrow> [] | Some p \<Rightarrow> [p]) else [])"
      by simp
    note d = run_command_done[OF r[unfolded True]]
    from saves_target[OF s2] have c1: "length (saves st2) \<le> 1"
      and c2: "\<forall>q\<in>set (saves st2). o_dbase opts = Some q" by auto
    have c3: "(saves st2 \<noteq> []) = (\<exists>ht. tab st1 = Some ht \<and> dirty ht)"
    proof (cases "tab st1")
      case None
      with s2 show ?thesis by simp
    next
      case (Some ht)
      with d obtain p where "o_dbase opts = Some p" by auto
      with s2 Some show ?thesis by simp
    qed
    have c5: "saves st2 = []" if "o_cmd opts = ''list'' \<or> o_cmd opts = ''match''"
    proof -
      from d that obtain ht where "tab st1 = Some ht" "\<not> dirty ht" by blast
      with s2 show ?thesis by simp
    qed
    from c1 c2 c3 c5 True show ?thesis by blast
  qed
qed

lemma run_newmerge_sample:
  "snd (run_command sample_externals newmerge_b_options disk_b) = Done
   \<and> tab (fst (run_command sample_externals newmerge_b_options disk_b))
       = Some (ht_merge ((HashTable_new sample_externals 20 100 16384)
                           \<lparr>params := [''samplerate'' \<mapsto> 22050]\<rparr>)
                 (table_b\<lparr>params := [''samplerate'' \<mapsto> 22050]\<rparr>))"
  by (simp add: run_command_def newmerge_b_options_def newmerge_options_def default_options_def
        choices_def open_table_def initial_state_def select_executor_def do_cmd_def
        filename_list_iterator_def path_join_def end_of_iteration_def HashTable_load_def
        disk_b_def merge_tables_def ensure_dir_def path_split_def new_maxtime_def
        shift_left_one_def HashTable_new_def sample_externals_def table_b_def ht_merge_def
        the_matcher_def precomp_type_def)

theorem persist_once_iff_dirty_witness:
  "snd (run_command sample_externals newmerge_b_options disk_b) = Done
   \<and> saves (fst (main sample_externals newmerge_b_options disk_b)) = [''db'']"
proof -
  let ?r = "run_command sample_externals newmerge_b_options disk_b"
  let ?m = "main sample_externals newmerge_b_options disk_b"
  have r: "?r = (fst ?r, snd ?r)" and m: "?m = (fst ?m, snd ?m)" by simp_all
  note t = persist_once_iff_dirty[OF r m]
  from run_newmerge_sample have d: "snd ?r = Done" by (rule conjunct1)
  from run_newmerge_sample have "\<exists>ht. tab (fst ?r) = Some ht \<and> dirty ht"
    by (simp add: ht_merge_def)
  with t d have ne: "saves (fst ?m) \<noteq> []" by blast
  from t have "\<forall>p\<in>set (saves (fst ?m)). o_dbase newmerge_b_options = Some p" by blast
  moreover have "o_dbase newmerge_b_options = Some ''db''"
    by (simp add: newmerge_b_options_def newmerge_options_def default_options_def)
  ultimately have tg: "\<forall>p\<in>set (saves (fst ?m)). p = ''db''"
    by auto
  from t have le: "length (saves (fst ?m)) \<le> 1" by blast
  from ne le tg have "saves (fst ?m) = [''db'']"
    by (cases "saves (fst ?m)") auto
  with d show ?thesis by simp
qed

subsection \<open>The directory of a new index\<close>

lemma open_table_locked:
  "open_table sample_externals new_locked_options (initial_state new_locked_options locked_disk) =
     (\<lparr>disk = locked_disk, trace_log = [],
       tab = Some ((HashTable_new sample_externals 20 100 16384)\<lparr>params := [''samplerate'' \<mapsto> 11025]\<rparr>),
       anl = Some (setup_analyzer 20 False 5 3 30 0 11025 False),
       saves = [], events = []\<rparr>, Done)"
  by (simp add: open_table_def new_locked_options_def default_options_def initial_state_def
        sample_externals_def locked_disk_def path_split_def ensure_dir_def new_maxtime_def
        shift_left_one_def HashTable_new_def setup_analyzer_def Analyzer_new_def
        path_exists_def makedirs_def)

text \<open>
  C9: a new or newmerge run is meant to fail before any file work when the directory of
  the index cannot be created. In the code \<open>ensure_dir\<close> swallows the failure of
  \<open>os.makedirs\<close>: on a disk where the directory cannot be created the index handle is
  still set up, the file is analysed and stored, the report is logged, and the error is
  raised only by the final save.
\<close>

theorem uncreatable_directory_not_fatal:
  "fst (path_split ''/locked/out/db'') = ''/locked/out''
   \<and> makedirs ''/locked/out'' locked_disk = Inl (OSError ''/locked/out'')
   \<and> ensure_dir ''/locked/out'' locked_disk = locked_disk
   \<and> snd (open_table sample_externals new_locked_options
             (initial_state new_locked_options locked_disk)) = Done
   \<and> snd (main sample_externals new_locked_options locked_disk) = Raised (OSError ''/locked/out/db'')
   \<and> map_option soundfilecount (anl (fst (main sample_externals new_locked_options locked_disk)))
       = Some 1
   \<and> map_option blocks (tab (fst (main sample_externals new_locked_options locked_disk)))
       = Some [(''a.wav'', [(1, 5), (2, 7)])]
   \<and> trace_log (fst (main sample_externals new_locked_options locked_disk))
       = [[Ingesting 0 ''a.wav''], [Added 2 (2 / 3)]]
   \<and> saves (fst (main sample_externals new_locked_options locked_disk)) = [''/locked/out/db'']"
proof -
  have p: "fst (path_split ''/locked/out/db'') = ''/locked/out''"
    by (simp add: path_split_def)
  have mk: "makedirs ''/locked/out'' locked_disk = Inl (OSError ''/locked/out'')"
    by (simp add: makedirs_def locked_disk_def)
  have en: "ensure_dir ''/locked/out'' locked_disk = locked_disk"
    by (simp add: ensure_dir_def makedirs_def path_exists_def locked_disk_def)
  have ch: "o_cmd new_locked_options \<in> set choices"
    by (simp add: new_locked_options_def default_options_def choices_def)
  have se: "select_executor (o_cmd new_locked_options) (o_ncores new_locked_options) = SingleProcess"
    by (simp add: new_locked_options_def default_options_def select_executor_def)
  have it: "filename_list_iterator locked_disk (o_file new_locked_options)
              (o_wavdir new_locked_options) (o_wavext new_locked_options)
              (o_list new_locked_options) = ([''a.wav''], None)"
    by (simp add: filename_list_iterator_def new_locked_options_def default_options_def path_join_def)
  have c: "o_cmd new_locked_options = ''new'' \<or> o_cmd new_locked_options = ''add''"
    by (simp add: new_locked_options_def default_options_def)
  let ?ht = "(HashTable_new sample_externals 20 100 16384)\<lparr>params := [''samplerate'' \<mapsto> 11025]\<rparr>"
  let ?an = "setup_analyzer 20 False 5 3 30 0 11025 False"
  let ?st1 = "\<lparr>disk = locked_disk, trace_log = [[Ingesting 0 ''a.wav''], [Added 2 (2 / 3)]],
       tab = Some (ht_store ?ht ''a.wav'' [(1, 5), (2, 7)]),
       anl = Some (?an\<lparr>soundfiledur := 3, soundfiletotaldur := 3, soundfilecount := 1\<rparr>),
       saves = [], events = []\<rparr>"
  let ?st0 = "\<lparr>disk = locked_disk, trace_log = [], tab = Some ?ht, anl = Some ?an,
       saves = [], events = []\<rparr>"
  have r0: "run_command sample_externals new_locked_options locked_disk =
              do_cmd sample_externals (o_cmd new_locked_options) ([''a.wav''], None)
                (the_matcher new_locked_options) (o_precompdir new_locked_options)
                (precomp_type new_locked_options) (o_skip_existing new_locked_options)
                (o_wavdir new_locked_options) ?st0"
    by (simp add: run_command_def ch open_table_locked se it)
  have i: "ingest sample_externals ?an (Some ?ht) ''a.wav'' =
             (Inr (3, 2), ?an\<lparr>soundfiledur := 3, soundfiletotaldur := 3, soundfilecount := 1\<rparr>,
              Some (ht_store ?ht ''a.wav'' [(1, 5), (2, 7)]))"
    by (simp add: ingest_def wavfile2hashes_def sample_externals_def setup_analyzer_def
          Analyzer_new_def)
  have r: "run_command sample_externals new_locked_options locked_disk = (?st1, Done)"
    unfolding r0 do_cmd_new_add[OF c]
    by (simp add: i Let_def)
  have db: "o_dbase new_locked_options = Some ''/locked/out/db''"
    by (simp add: new_locked_options_def default_options_def)
  have nd: "''/locked/out'' \<notin> dirs locked_disk" by (simp add: locked_disk_def)
  have m0: "main sample_externals new_locked_options locked_disk = persist new_locked_options ?st1"
    by (simp add: main_def r)
  have m: "main sample_externals new_locked_options locked_disk =
             (?st1\<lparr>saves := [''/locked/out/db'']\<rparr>, Raised (OSError ''/locked/out/db''))"
    unfolding m0 by (simp add: persist_def ht_store_def ht_save_def p db nd)
  from p mk en open_table_locked show ?thesis
    unfolding m by (simp add: ht_store_def HashTable_new_def)
qed

end
